theory Spec2Isabelle
  imports
    Complex_Main
    "HOL-Library.Char_ord"
    "HOL-Library.List_Lexorder"
    "HOL-Library.Product_Lexorder"
    "HOL-Library.Multiset"
begin

section \<open>Temporal event model: the reference implementation \<^verbatim>\<open>temporal.py\<close>\<close>

text \<open>
  The development embeds \<^verbatim>\<open>src/reference/python/temporal.py\<close>: the event reducer
  \<^verbatim>\<open>apply_event\<close>, the diff \<^verbatim>\<open>compute_diff\<close>, the timeline functions
  \<^verbatim>\<open>build_timeline\<close> and \<^verbatim>\<open>derive_snapshot\<close>, and the validators
  \<^verbatim>\<open>validate_event\<close> and \<^verbatim>\<open>validate_timeline\<close>.

  Strings are byte lists; \<^verbatim>\<open>Char_ord\<close> and \<^verbatim>\<open>List_Lexorder\<close> order them
  lexicographically by character code, which is the order of Python's \<^verbatim>\<open><\<close> on
  \<^verbatim>\<open>str\<close>. Pairs are ordered lexicographically (\<^verbatim>\<open>Product_Lexorder\<close>), as
  Python orders tuples.
\<close>

subsection \<open>Values\<close>

text \<open>
  Payloads and states hold the values that Python's \<^verbatim>\<open>json\<close> module reads. A Python
  \<^verbatim>\<open>dict\<close> with string keys is an association list in insertion order. An \<^verbatim>\<open>int\<close> is
  unbounded. A \<^verbatim>\<open>float\<close> is a finite number (given by its exact rational value, so that
  \<open>0.0\<close> and \<open>-0.0\<close> are one value), an infinity or NaN.
\<close>

datatype pyfloat = Finite rat | PosInf | NegInf | NaN

datatype json =
    JNull
  | JBool bool
  | JNum int
  | JFloat pyfloat
  | JStr string
  | JList "json list"
  | JDict "(string \<times> json) list"

type_synonym dict = "(string \<times> json) list"

text \<open>
  Python's \<^verbatim>\<open>==\<close> on floats, and between a float and an integer: numbers are compared by
  their exact values, and NaN is equal to nothing, not even to itself.
\<close>

fun float_eq :: "pyfloat \<Rightarrow> pyfloat \<Rightarrow> bool" where
  "float_eq (Finite q) y = (case y of Finite r \<Rightarrow> q = r | _ \<Rightarrow> False)"
| "float_eq PosInf y = (y = PosInf)"
| "float_eq NegInf y = (y = NegInf)"
| "float_eq NaN y = False"

fun float_eq_int :: "pyfloat \<Rightarrow> int \<Rightarrow> bool" where
  "float_eq_int (Finite q) n = (q = of_int n)"
| "float_eq_int _ n = False"

text \<open>
  Python's \<^verbatim>\<open>==\<close> on these values: \<^verbatim>\<open>bool\<close> is a subclass of \<^verbatim>\<open>int\<close>, so
  \<^verbatim>\<open>True == 1\<close>; lists are compared element by element; two dicts are equal when they
  have the same number of keys and, for every key \<open>k\<close> of the first, the second has
  \<open>k\<close> and \<open>a[k] == b[k]\<close>, whatever the insertion order. The comparison is a function
  of the two values. (Inside a list or a dict CPython takes one and the same object to be
  equal to itself without comparing it; a value is not an object, so for a NaN nested in a
  container \<open>py_eq\<close> is the comparison of two separately built values.)
\<close>

lemma size_map_of:
  "map_of d k = Some (v::json) \<Longrightarrow> size v \<le> size_list (size_prod (\<lambda>_. 0) size) d"
  by (induction d) (auto split: if_splits)

function (sequential) py_eq :: "json \<Rightarrow> json \<Rightarrow> bool" where
  "py_eq JNull JNull = True"
| "py_eq (JBool a) (JBool b) = (a = b)"
| "py_eq (JBool a) (JNum n) = ((if a then 1 else 0) = n)"
| "py_eq (JNum n) (JBool a) = (n = (if a then 1 else 0))"
| "py_eq (JNum m) (JNum n) = (m = n)"
| "py_eq (JFloat x) (JFloat y) = float_eq x y"
| "py_eq (JFloat x) (JNum n) = float_eq_int x n"
| "py_eq (JNum n) (JFloat x) = float_eq_int x n"
| "py_eq (JFloat x) (JBool a) = float_eq_int x (if a then 1 else 0)"
| "py_eq (JBool a) (JFloat x) = float_eq_int x (if a then 1 else 0)"
| "py_eq (JStr s) (JStr t) = (s = t)"
| "py_eq (JList xs) (JList ys) = list_all2 py_eq xs ys"
| "py_eq (JDict a) (JDict b) =
     (length a = length b \<and>
      list_all (\<lambda>k. case map_of a k of
                        None \<Rightarrow> False
                      | Some v \<Rightarrow> (case map_of b k of None \<Rightarrow> False | Some w \<Rightarrow> py_eq v w))
        (map fst a))"
| "py_eq _ _ = False"
  by pat_completeness auto
termination
  by (relation "measure (\<lambda>(x, y). size x)")
     (auto simp: less_Suc_eq_le size_list_estimation' dest: size_map_of)

text \<open>A value holds no NaN, at any depth.\<close>

fun nan_free :: "json \<Rightarrow> bool" where
  "nan_free (JFloat x) = (x \<noteq> NaN)"
| "nan_free (JList xs) = list_all nan_free xs"
| "nan_free (JDict d) = list_all (\<lambda>(k, v). nan_free v) d"
| "nan_free _ = True"

text \<open>\<^verbatim>\<open>d.get(k, default)\<close>, and \<^verbatim>\<open>d.get(k)\<close> whose default is \<^verbatim>\<open>None\<close>.\<close>

definition dict_get_default :: "dict \<Rightarrow> string \<Rightarrow> json \<Rightarrow> json" where
  "dict_get_default d k dflt = (case map_of d k of None \<Rightarrow> dflt | Some v \<Rightarrow> v)"

definition dict_get :: "dict \<Rightarrow> string \<Rightarrow> json" where
  "dict_get d k = dict_get_default d k JNull"

text \<open>\<^verbatim>\<open>d[k] = v\<close>: an existing key keeps its position, a new key goes last.\<close>

fun dict_set :: "string \<Rightarrow> json \<Rightarrow> dict \<Rightarrow> dict" where
  "dict_set k v [] = [(k, v)]"
| "dict_set k v (p # ps) = (if fst p = k then (k, v) # ps else p # dict_set k v ps)"

text \<open>\<^verbatim>\<open>for key, value in src.items(): d[key] = value\<close>; also \<^verbatim>\<open>{**d, **src}\<close>.\<close>

fun dict_update_all :: "dict \<Rightarrow> dict \<Rightarrow> dict" where
  "dict_update_all d [] = d"
| "dict_update_all d ((k, v) # kvs) = dict_update_all (dict_set k v d) kvs"

text \<open>\<^verbatim>\<open>deepcopy\<close> returns an equal value that shares nothing; values here are immutable.\<close>

definition deepcopy :: "'a \<Rightarrow> 'a" where
  "deepcopy x = x"

subsection \<open>Errors\<close>

text \<open>
  Every \<^verbatim>\<open>raise ValueError(f"...")\<close> of the source is one constructor of \<open>message\<close>,
  holding the values its f-string interpolates:
  \<^item> \<open>Msg_already_exists e\<close>: \<^verbatim>\<open>Cannot create {e}: already exists\<close>
  \<^item> \<open>Msg_does_not_exist verb e\<close>: \<^verbatim>\<open>Cannot {verb} {e}: does not exist\<close>
  \<^item> \<open>Msg_has_been_deleted verb e\<close>: \<^verbatim>\<open>Cannot {verb} {e}: has been deleted\<close>
  \<^item> \<open>Msg_already_deleted e\<close>: \<^verbatim>\<open>Cannot delete {e}: already deleted\<close>
  \<^item> \<open>Msg_relationship_not_found t x\<close>: \<^verbatim>\<open>Relationship not found: {t} -> {x}\<close>
  \<^item> \<open>Msg_unknown_event_type t\<close>: \<^verbatim>\<open>Unknown event type: {t}\<close>
  \<^item> \<open>Msg_invalid_isoformat s\<close>: the \<^verbatim>\<open>ValueError\<close> of \<^verbatim>\<open>datetime.fromisoformat(s)\<close>.

  \<open>TypeError\<close> and \<open>AttributeError\<close> are the exceptions Python raises when an operation
  meets a value of the wrong type (\<^verbatim>\<open>.append\<close> on a non-list, \<^verbatim>\<open>.get\<close> on a non-dict,
  \<^verbatim>\<open>**\<close> on a non-mapping, iteration over a non-iterable).
\<close>

datatype message =
    Msg_already_exists string
  | Msg_does_not_exist string string
  | Msg_has_been_deleted string string
  | Msg_already_deleted string
  | Msg_relationship_not_found json json
  | Msg_unknown_event_type string
  | Msg_invalid_isoformat string

datatype error = ValueError message | TypeError | AttributeError

text \<open>The failure taxonomy of the specification, and the message each kind is raised with.\<close>

datatype failure =
    EntityAlreadyExists
  | EntityNotFound
  | EntityDeleted
  | RelationshipNotFound
  | UnknownEventType

fun failure_of :: "error \<Rightarrow> failure option" where
  "failure_of (ValueError (Msg_already_exists e)) = Some EntityAlreadyExists"
| "failure_of (ValueError (Msg_does_not_exist verb e)) = Some EntityNotFound"
| "failure_of (ValueError (Msg_has_been_deleted verb e)) = Some EntityDeleted"
| "failure_of (ValueError (Msg_already_deleted e)) = Some EntityDeleted"
| "failure_of (ValueError (Msg_relationship_not_found t x)) = Some RelationshipNotFound"
| "failure_of (ValueError (Msg_unknown_event_type t)) = Some UnknownEventType"
| "failure_of _ = None"

text \<open>
  Iterating over a value (\<^verbatim>\<open>for r in v\<close>): a list yields its elements, a dict its keys, a
  string its characters; anything else raises \<^verbatim>\<open>TypeError\<close>.
\<close>

fun py_iter :: "json \<Rightarrow> error + json list" where
  "py_iter (JList xs) = Inr xs"
| "py_iter (JDict d) = Inr (map (\<lambda>p. JStr (fst p)) d)"
| "py_iter (JStr s) = Inr (map (\<lambda>c. JStr [c]) s)"
| "py_iter _ = Inl TypeError"

subsection \<open>Events and snapshots\<close>

text \<open>
  An event as \<^verbatim>\<open>apply_event\<close> and \<^verbatim>\<open>build_timeline\<close> read it: the fields
  \<^verbatim>\<open>id\<close>, \<^verbatim>\<open>entity_id\<close>, \<^verbatim>\<open>event_type\<close>, \<^verbatim>\<open>timestamp\<close> (strings) and
  \<^verbatim>\<open>payload\<close> (a dict; \<^verbatim>\<open>event.get("payload", {})\<close> reads a missing payload as the
  empty dict). A snapshot is the five-key dict that \<^verbatim>\<open>apply_event\<close> returns.
\<close>

record event =
  event_id :: string
  event_entity_id :: string
  event_type :: string
  timestamp :: string
  payload :: dict

record snapshot =
  entity_id :: string
  as_of :: string
  state :: dict
  last_event_id :: string
  deleted :: bool

subsection \<open>Event application\<close>

text \<open>The dict literal every successful branch of \<^verbatim>\<open>apply_event\<close> returns.\<close>

definition new_snapshot :: "event \<Rightarrow> dict \<Rightarrow> bool \<Rightarrow> snapshot" where
  "new_snapshot event st del =
     \<lparr>entity_id = event_entity_id event, as_of = timestamp event, state = st,
      last_event_id = event_id event, deleted = del\<rparr>"

text \<open>
  The appended record
  \<^verbatim>\<open>{"type": payload.get("relationship_type"), "target": payload.get("target_entity"),
    **payload.get("properties", {})}\<close>.
\<close>

definition relationship_record :: "dict \<Rightarrow> error + json" where
  "relationship_record pl =
     (case dict_get_default pl ''properties'' (JDict []) of
        JDict props \<Rightarrow>
          Inr (JDict (dict_update_all
            [(''type'', dict_get pl ''relationship_type''),
             (''target'', dict_get pl ''target_entity'')] props))
      | _ \<Rightarrow> Inl TypeError)"

text \<open>
  The test of the list comprehension of \<^verbatim>\<open>relationship_removed\<close>,
  \<^verbatim>\<open>r.get("target") == target and r.get("type") == rel_type\<close>, on a record that is a dict.
\<close>

definition rel_matches :: "json \<Rightarrow> json \<Rightarrow> dict \<Rightarrow> bool" where
  "rel_matches target rel_type r =
     (py_eq (dict_get r ''target'') target \<and> py_eq (dict_get r ''type'') rel_type)"

text \<open>
  \<^verbatim>\<open>[r for r in relationships if not (...)]\<close>: \<^verbatim>\<open>r.get\<close> raises
  \<^verbatim>\<open>AttributeError\<close> at the first element that is not a dict.
\<close>

fun keep_unmatched :: "json \<Rightarrow> json \<Rightarrow> json list \<Rightarrow> error + json list" where
  "keep_unmatched target rel_type [] = Inr []"
| "keep_unmatched target rel_type (r # rs) =
     (case r of
        JDict d \<Rightarrow>
          (case keep_unmatched target rel_type rs of
             Inl e \<Rightarrow> Inl e
           | Inr ks \<Rightarrow> Inr (if rel_matches target rel_type d then ks else r # ks))
      | _ \<Rightarrow> Inl AttributeError)"

definition apply_event :: "snapshot option \<Rightarrow> event \<Rightarrow> error + snapshot" where
  "apply_event snapshot event =
     (let et = event_type event; eid = event_entity_id event; pl = payload event in
      if et = ''created'' then
        (case snapshot of
           Some s \<Rightarrow>
             if \<not> deleted s then Inl (ValueError (Msg_already_exists eid))
             else Inr (new_snapshot event (deepcopy pl) False)
         | None \<Rightarrow> Inr (new_snapshot event (deepcopy pl) False))
      else if et = ''updated'' then
        (case snapshot of
           None \<Rightarrow> Inl (ValueError (Msg_does_not_exist ''update'' eid))
         | Some s \<Rightarrow>
             if deleted s then Inl (ValueError (Msg_has_been_deleted ''update'' eid))
             else Inr (new_snapshot event (dict_update_all (deepcopy (state s)) pl) False))
      else if et = ''deleted'' then
        (case snapshot of
           None \<Rightarrow> Inl (ValueError (Msg_does_not_exist ''delete'' eid))
         | Some s \<Rightarrow>
             if deleted s then Inl (ValueError (Msg_already_deleted eid))
             else Inr (new_snapshot event
                    [(''_deleted_state'', JDict (deepcopy (state s)))] True))
      else if et = ''relationship_added'' then
        (case snapshot of
           None \<Rightarrow> Inl (ValueError (Msg_does_not_exist ''add relationship to'' eid))
         | Some s \<Rightarrow>
             if deleted s then Inl (ValueError (Msg_has_been_deleted ''add relationship to'' eid))
             else
               (let st = deepcopy (state s);
                    new_state = (if map_of st ''relationships'' = None
                                 then dict_set ''relationships'' (JList []) st else st)
                in case dict_get new_state ''relationships'' of
                     JList rels \<Rightarrow>
                       (case relationship_record pl of
                          Inl e \<Rightarrow> Inl e
                        | Inr r \<Rightarrow>
                            Inr (new_snapshot event
                                  (dict_set ''relationships'' (JList (rels @ [r])) new_state)
                                  False))
                   | _ \<Rightarrow> Inl AttributeError))
      else if et = ''relationship_removed'' then
        (case snapshot of
           None \<Rightarrow> Inl (ValueError (Msg_does_not_exist ''remove relationship from'' eid))
         | Some s \<Rightarrow>
             if deleted s
             then Inl (ValueError (Msg_has_been_deleted ''remove relationship from'' eid))
             else
               (let new_state = deepcopy (state s);
                    relationships = dict_get_default new_state ''relationships'' (JList []);
                    target = dict_get pl ''target_entity'';
                    rel_type = dict_get pl ''relationship_type''
                in case py_iter relationships of
                     Inl e \<Rightarrow> Inl e
                   | Inr items \<Rightarrow>
                       (case keep_unmatched target rel_type items of
                          Inl e \<Rightarrow> Inl e
                        | Inr new_relationships \<Rightarrow>
                            if length new_relationships = length items
                            then Inl (ValueError (Msg_relationship_not_found rel_type target))
                            else Inr (new_snapshot event
                                   (dict_set ''relationships'' (JList new_relationships)
                                      new_state)
                                   False))))
      else Inl (ValueError (Msg_unknown_event_type et)))"

subsection \<open>Diff computation\<close>







subsection \<open>Timeline operations\<close>

definition sort_key_of :: "event \<Rightarrow> string \<times> string" where
  "sort_key_of event = (timestamp event, event_id event)"

text \<open>
  \<^verbatim>\<open>sorted(events, key=sort_key)\<close> is a stable sort, and so is \<open>sort_key\<close>; a stable
  sort has one result.
\<close>

definition build_timeline :: "event list \<Rightarrow> event list" where
  "build_timeline events = sort_key sort_key_of events"

text \<open>The \<^verbatim>\<open>for\<close> loop of \<^verbatim>\<open>derive_snapshot\<close>, with its \<^verbatim>\<open>break\<close>.\<close>

fun derive_loop :: "snapshot option \<Rightarrow> event list \<Rightarrow> string \<Rightarrow> error + snapshot option" where
  "derive_loop snap [] t = Inr snap"
| "derive_loop snap (event # rest) t =
     (if timestamp event > t then Inr snap
      else case apply_event snap event of
             Inl e \<Rightarrow> Inl e
           | Inr s \<Rightarrow> derive_loop (Some s) rest t)"

text \<open>
  \<^verbatim>\<open>if snapshot: snapshot["as_of"] = as_of\<close>: a snapshot is a five-key dict, hence truthy.
\<close>

definition derive_snapshot :: "event list \<Rightarrow> string \<Rightarrow> error + snapshot option" where
  "derive_snapshot events t =
     (case derive_loop None (build_timeline events) t of
        Inl e \<Rightarrow> Inl e
      | Inr None \<Rightarrow> Inr None
      | Inr (Some s) \<Rightarrow> Inr (Some (s\<lparr>as_of := t\<rparr>)))"

subsection \<open>Validation\<close>

text \<open>
  The error strings of the validators, one constructor per f-string:
  \<^item> \<open>Missing_required_field f\<close>: \<^verbatim>\<open>Missing required field: {f}\<close>
  \<^item> \<open>Invalid_event_type v\<close>: \<^verbatim>\<open>Invalid event_type: {v}\<close>
  \<^item> \<open>Invalid_timestamp_format v\<close>: \<^verbatim>\<open>Invalid timestamp format: {v}\<close>
  \<^item> \<open>Event_error i e\<close>: \<^verbatim>\<open>Event {i}: {str(e)}\<close>
\<close>

datatype verror =
    Missing_required_field string
  | Invalid_event_type json
  | Invalid_timestamp_format json
  | Event_error string message

definition required :: "string list" where
  "required = [''id'', ''entity_id'', ''event_type'', ''timestamp'', ''payload'']"

definition valid_types :: "string list" where
  "valid_types =
     [''created'', ''updated'', ''deleted'', ''relationship_added'', ''relationship_removed'']"

text \<open>\<^verbatim>\<open>s.replace("Z", "+00:00")\<close>.\<close>

definition replace_Z :: "string \<Rightarrow> string" where
  "replace_Z s = concat (map (\<lambda>c. if c = CHR ''Z'' then ''+00:00'' else [c]) s)"

text \<open>
  \<^verbatim>\<open>datetime.fromisoformat(ts.replace("Z", "+00:00"))\<close>. Only a string has
  \<^verbatim>\<open>.replace\<close> among these values. The parser is the standard library's: it is the
  parameter \<open>fromisoformat\<close>, true of the strings it accepts.
\<close>

definition parse_timestamp :: "(string \<Rightarrow> bool) \<Rightarrow> json \<Rightarrow> error + unit" where
  "parse_timestamp fromisoformat ts =
     (case ts of
        JStr s \<Rightarrow>
          if fromisoformat (replace_Z s) then Inr ()
          else Inl (ValueError (Msg_invalid_isoformat (replace_Z s)))
      | _ \<Rightarrow> Inl AttributeError)"

text \<open>The loop \<^verbatim>\<open>for field in required\<close>.\<close>

fun check_required :: "dict \<Rightarrow> string list \<Rightarrow> verror list \<Rightarrow> verror list" where
  "check_required event [] errors = errors"
| "check_required event (f # fs) errors =
     check_required event fs
       (if map_of event f = None then errors @ [Missing_required_field f] else errors)"

text \<open>
  \<^verbatim>\<open>validate_event\<close> takes the raw mapping. \<^verbatim>\<open>except (ValueError, AttributeError)\<close>
  catches those two exceptions; any other would leave the function.
\<close>

definition validate_event :: "(string \<Rightarrow> bool) \<Rightarrow> dict \<Rightarrow> error + verror list" where
  "validate_event fromisoformat event =
     (let errors = check_required event required [];
          errors = (if \<not> list_ex (\<lambda>t. py_eq (dict_get event ''event_type'') (JStr t))
                           valid_types
                    then errors @ [Invalid_event_type (dict_get event ''event_type'')]
                    else errors);
          ts = dict_get_default event ''timestamp'' (JStr '''')
      in case parse_timestamp fromisoformat ts of
           Inr _ \<Rightarrow> Inr errors
         | Inl (ValueError m) \<Rightarrow> Inr (errors @ [Invalid_timestamp_format ts])
         | Inl AttributeError \<Rightarrow> Inr (errors @ [Invalid_timestamp_format ts])
         | Inl e \<Rightarrow> Inl e)"

text \<open>
  The loop of \<^verbatim>\<open>validate_timeline\<close>: \<^verbatim>\<open>except ValueError\<close> catches the reducer's
  failures; a \<^verbatim>\<open>TypeError\<close> or \<^verbatim>\<open>AttributeError\<close> leaves the function.
\<close>

fun validate_loop ::
  "snapshot option \<Rightarrow> event list \<Rightarrow> verror list \<Rightarrow> error + verror list" where
  "validate_loop snap [] errors = Inr errors"
| "validate_loop snap (event # rest) errors =
     (case apply_event snap event of
        Inr s \<Rightarrow> validate_loop (Some s) rest errors
      | Inl (ValueError m) \<Rightarrow>
          validate_loop snap rest (errors @ [Event_error (event_id event) m])
      | Inl e \<Rightarrow> Inl e)"

definition validate_timeline :: "event list \<Rightarrow> error + verror list" where
  "validate_timeline events = validate_loop None (build_timeline events) []"

subsection \<open>The company example\<close>

text \<open>The event list \<^verbatim>\<open>EVENTS\<close> of \<^verbatim>\<open>examples/company.py\<close>.\<close>

definition evt_001 :: event where
  "evt_001 =
     \<lparr>event_id = ''evt-001'', event_entity_id = ''company-123'', event_type = ''created'',
      timestamp = ''2024-01-01T00:00:00Z'',
      payload = [(''name'', JStr ''Acme Corp''), (''status'', JStr ''active''),
                 (''founded'', JStr ''2024-01-01'')]\<rparr>"

definition evt_002 :: event where
  "evt_002 =
     \<lparr>event_id = ''evt-002'', event_entity_id = ''company-123'', event_type = ''updated'',
      timestamp = ''2024-03-15T10:30:00Z'',
      payload = [(''status'', JStr ''expanding''), (''employee_count'', JNum 10)]\<rparr>"

definition evt_003 :: event where
  "evt_003 =
     \<lparr>event_id = ''evt-003'', event_entity_id = ''company-123'',
      event_type = ''relationship_added'', timestamp = ''2024-03-20T14:00:00Z'',
      payload = [(''relationship_type'', JStr ''employs''),
                 (''target_entity'', JStr ''person-456''),
                 (''properties'', JDict [(''role'', JStr ''engineer''),
                                         (''start_date'', JStr ''2024-03-20'')])]\<rparr>"

definition evt_004 :: event where
  "evt_004 =
     \<lparr>event_id = ''evt-004'', event_entity_id = ''company-123'', event_type = ''updated'',
      timestamp = ''2024-06-01T09:00:00Z'',
      payload = [(''status'', JStr ''stable''), (''employee_count'', JNum 25)]\<rparr>"

definition evt_005 :: event where
  "evt_005 =
     \<lparr>event_id = ''evt-005'', event_entity_id = ''company-123'', event_type = ''deleted'',
      timestamp = ''2024-12-31T23:59:59Z'', payload = []\<rparr>"

definition EVENTS :: "event list" where
  "EVENTS = [evt_001, evt_002, evt_003, evt_004, evt_005]"

text \<open>
  Further inputs for the instances below: a removal of the relationship that
  \<open>evt_003\<close> adds, two additions with incomplete payloads, an addition whose properties
  are null, a creation whose payload stores a string under \<^verbatim>\<open>relationships\<close>, an
  update that precedes every creation, two
  relationship records, a live snapshot with a given state, and a raw event mapping without
  \<^verbatim>\<open>timestamp\<close>.
\<close>

definition evt_remove :: event where
  "evt_remove =
     \<lparr>event_id = ''evt-006'', event_entity_id = ''company-123'',
      event_type = ''relationship_removed'', timestamp = ''2024-07-15T12:00:00Z'',
      payload = [(''relationship_type'', JStr ''employs''),
                 (''target_entity'', JStr ''person-456'')]\<rparr>"

definition evt_add_bare :: event where
  "evt_add_bare =
     \<lparr>event_id = ''evt-007'', event_entity_id = ''company-123'',
      event_type = ''relationship_added'', timestamp = ''2024-08-01T00:00:00Z'',
      payload = []\<rparr>"

definition evt_add_override :: event where
  "evt_add_override =
     \<lparr>event_id = ''evt-008'', event_entity_id = ''company-123'',
      event_type = ''relationship_added'', timestamp = ''2024-08-02T00:00:00Z'',
      payload = [(''target_entity'', JStr ''person-456''),
                 (''properties'', JDict [(''type'', JStr ''advises'')])]\<rparr>"

definition evt_add_null_properties :: event where
  "evt_add_null_properties =
     \<lparr>event_id = ''evt-009'', event_entity_id = ''company-123'',
      event_type = ''relationship_added'', timestamp = ''2024-08-03T00:00:00Z'',
      payload = [(''relationship_type'', JStr ''employs''),
                 (''target_entity'', JStr ''person-456''), (''properties'', JNull)]\<rparr>"

definition evt_created_untyped :: event where
  "evt_created_untyped =
     \<lparr>event_id = ''evt-000'', event_entity_id = ''company-123'', event_type = ''created'',
      timestamp = ''2024-01-01T00:00:00Z'',
      payload = [(''name'', JStr ''Acme Corp''), (''relationships'', JStr ''none yet'')]\<rparr>"

definition evt_update_early :: event where
  "evt_update_early =
     \<lparr>event_id = ''evt-010'', event_entity_id = ''company-123'', event_type = ''updated'',
      timestamp = ''2023-12-31T00:00:00Z'', payload = [(''status'', JStr ''planned'')]\<rparr>"

definition employs_456 :: json where
  "employs_456 = JDict [(''type'', JStr ''employs''), (''target'', JStr ''person-456'')]"

definition employs_789 :: json where
  "employs_789 = JDict [(''type'', JStr ''employs''), (''target'', JStr ''person-789'')]"

definition snap_of :: "dict \<Rightarrow> snapshot" where
  "snap_of st = new_snapshot evt_001 st False"

definition evt_no_timestamp :: dict where
  "evt_no_timestamp =
     [(''id'', JStr ''evt-001''), (''entity_id'', JStr ''company-123''),
      (''event_type'', JStr ''created''), (''payload'', JDict [])]"

subsection \<open>The data model of the specification\<close>

text \<open>
  The specification's snapshot has a reserved \<^verbatim>\<open>relationships\<close> field holding a sequence
  of relationship records, and \<^verbatim>\<open>relationship_added\<close> merges the keys of the mapping
  \<^verbatim>\<open>payload.properties\<close>. The source checks neither: on other values it raises
  \<^verbatim>\<open>AttributeError\<close> or \<^verbatim>\<open>TypeError\<close>. The predicates say that a dict respects the
  data model: every value stored under \<^verbatim>\<open>relationships\<close> is a list of dicts, every value
  stored under \<^verbatim>\<open>properties\<close> is a dict.
\<close>

fun is_mapping :: "json \<Rightarrow> bool" where
  "is_mapping (JDict d) = True"
| "is_mapping _ = False"

fun is_record_list :: "json \<Rightarrow> bool" where
  "is_record_list (JList rs) = list_all is_mapping rs"
| "is_record_list _ = False"

definition relationships_ok :: "dict \<Rightarrow> bool" where
  "relationships_ok d = list_all (\<lambda>(k, v). k = ''relationships'' \<longrightarrow> is_record_list v) d"

definition properties_ok :: "dict \<Rightarrow> bool" where
  "properties_ok d = list_all (\<lambda>(k, v). k = ''properties'' \<longrightarrow> is_mapping v) d"

definition snapshot_ok :: "snapshot option \<Rightarrow> bool" where
  "snapshot_ok snap = (case snap of None \<Rightarrow> True | Some s \<Rightarrow> relationships_ok (state s))"

definition event_ok :: "event \<Rightarrow> bool" where
  "event_ok e =
     ((event_type e = ''created'' \<or> event_type e = ''updated''
         \<longrightarrow> relationships_ok (payload e))
      \<and> (event_type e = ''relationship_added'' \<longrightarrow> properties_ok (payload e)))"

text \<open>
  The values that an application of an event reads as a sequence of records or as a mapping
  are of that kind: when \<^verbatim>\<open>relationship_added\<close> or \<^verbatim>\<open>relationship_removed\<close> meets a live
  snapshot, the relationships of its state are a sequence of records, and for
  \<^verbatim>\<open>relationship_added\<close> the properties of the payload are a mapping.
\<close>

definition application_ok :: "snapshot option \<Rightarrow> event \<Rightarrow> bool" where
  "application_ok snap e =
     (case snap of
        None \<Rightarrow> True
      | Some s \<Rightarrow>
          deleted s
          \<or> (event_type e = ''relationship_added''
               \<longrightarrow> relationships_ok (state s) \<and> properties_ok (payload e))
            \<and> (event_type e = ''relationship_removed'' \<longrightarrow> relationships_ok (state s)))"

text \<open>
  The relationships sequence of a state (an absent field reads as the empty sequence, as
  \<^verbatim>\<open>new_state.get("relationships", [])\<close> does), and the properties of a payload.
\<close>

definition relationships_of :: "dict \<Rightarrow> json list" where
  "relationships_of st = (case map_of st ''relationships'' of Some (JList rs) \<Rightarrow> rs | _ \<Rightarrow> [])"

definition properties_of :: "dict \<Rightarrow> dict" where
  "properties_of pl = (case map_of pl ''properties'' of Some (JDict p) \<Rightarrow> p | _ \<Rightarrow> [])"

subsection \<open>Definitions that follow the specification\<close>

text \<open>
  A relationship record matches a payload when its \<^verbatim>\<open>type\<close> equals the payload's
  \<^verbatim>\<open>relationship_type\<close> and its \<^verbatim>\<open>target\<close> equals the payload's
  \<^verbatim>\<open>target_entity\<close> (an absent key reads as null on either side).
\<close>

definition record_matches :: "dict \<Rightarrow> json \<Rightarrow> bool" where
  "record_matches pl r =
     (case r of
        JDict d \<Rightarrow> py_eq (dict_get d ''type'') (dict_get pl ''relationship_type'')
                 \<and> py_eq (dict_get d ''target'') (dict_get pl ''target_entity'')
      | _ \<Rightarrow> False)"

text \<open>
  The precondition table of the event reducer: the failure the specification prescribes
  for a prior snapshot and an event, \<open>None\<close> when the application is to succeed.
\<close>

definition mutating :: "string list" where
  "mutating = [''updated'', ''deleted'', ''relationship_added'', ''relationship_removed'']"

definition expected_failure :: "snapshot option \<Rightarrow> event \<Rightarrow> failure option" where
  "expected_failure snap e =
     (if event_type e = ''created'' then
        (case snap of
           Some s \<Rightarrow> if deleted s = False then Some EntityAlreadyExists else None
         | None \<Rightarrow> None)
      else if event_type e \<in> set mutating then
        (case snap of
           None \<Rightarrow> Some EntityNotFound
         | Some s \<Rightarrow>
             if deleted s = True then Some EntityDeleted
             else if event_type e = ''relationship_removed''
                     \<and> \<not> list_ex (record_matches (payload e)) (relationships_of (state s))
             then Some RelationshipNotFound
             else None)
      else Some UnknownEventType)"

text \<open>
  The fold of the reducer over a list of events that stops at the first failure; the replay
  of the validator, which pairs every event with the snapshot it is applied to and keeps the
  last successfully produced snapshot after a failure; the error entries of one replay step.
\<close>

fun fold_apply :: "snapshot option \<Rightarrow> event list \<Rightarrow> error + snapshot option" where
  "fold_apply snap [] = Inr snap"
| "fold_apply snap (e # es) =
     (case apply_event snap e of
        Inl err \<Rightarrow> Inl err
      | Inr s \<Rightarrow> fold_apply (Some s) es)"

fun replay :: "snapshot option \<Rightarrow> event list \<Rightarrow> (snapshot option \<times> event) list" where
  "replay snap [] = []"
| "replay snap (e # es) =
     (snap, e) # replay (case apply_event snap e of Inr s \<Rightarrow> Some s | Inl err \<Rightarrow> snap) es"

fun error_entries :: "snapshot option \<times> event \<Rightarrow> verror list" where
  "error_entries (snap, e) =
     (case apply_event snap e of
        Inl (ValueError m) \<Rightarrow> [Event_error (event_id e) m]
      | _ \<Rightarrow> [])"

text \<open>
  The \<^verbatim>\<open>relationships\<close> value after applying an addition and then a removal.
\<close>

definition relationships_after :: "snapshot \<Rightarrow> event \<Rightarrow> event \<Rightarrow> json option" where
  "relationships_after s a r =
     (case apply_event (Some s) a of
        Inl err \<Rightarrow> None
      | Inr s1 \<Rightarrow>
          (case apply_event (Some s1) r of
             Inl err \<Rightarrow> None
           | Inr s2 \<Rightarrow> map_of (state s2) ''relationships''))"

section \<open>Properties\<close>

subsection \<open>Timeline ordering\<close>

lemma lex_key_le:
  "sort_key_of a \<le> sort_key_of b \<longleftrightarrow>
     timestamp a < timestamp b \<or> (timestamp a = timestamp b \<and> event_id a \<le> event_id b)"
  by (auto simp: sort_key_of_def less_eq_prod_def)

lemma lex_key_less:
  "sort_key_of a < sort_key_of b \<longleftrightarrow>
     timestamp a < timestamp b \<or> (timestamp a = timestamp b \<and> event_id a < event_id b)"
  by (auto simp: sort_key_of_def less_prod_def)

lemma distinct_keys:
  "distinct (map event_id xs) \<Longrightarrow> distinct (map sort_key_of xs)"
proof -
  assume d: "distinct (map event_id xs)"
  have "map event_id xs = map snd (map sort_key_of xs)"
    by (simp add: sort_key_of_def)
  with d show ?thesis
    by (metis distinct_map)
qed

lemma build_timeline_stable:
  "filter (\<lambda>e. sort_key_of e = k) (build_timeline events)
     = filter (\<lambda>e. sort_key_of e = k) events"
  by (simp add: build_timeline_def sort_key_stable)

text \<open>
  Claim C8. \<^verbatim>\<open>build_timeline\<close> returns the same events (as a multiset), ordered by the
  composite key \<open>(timestamp, id)\<close> under string comparison: of two events in the output,
  the earlier has the smaller timestamp, or the same timestamp and an id that is not
  greater. When the ids of the input are pairwise different the order is strict, hence
  total. The function returns a new list; its argument is a value and is not changed.
\<close>

theorem build_timeline_ordered:
  "mset (build_timeline events) = mset events
   \<and> sorted_wrt (\<lambda>a b. timestamp a < timestamp b
                    \<or> (timestamp a = timestamp b \<and> event_id a \<le> event_id b))
        (build_timeline events)
   \<and> (distinct (map event_id events) \<longrightarrow>
        sorted_wrt (\<lambda>a b. timestamp a < timestamp b
                    \<or> (timestamp a = timestamp b \<and> event_id a < event_id b))
          (build_timeline events))"
proof (intro conjI impI)
  show m: "mset (build_timeline events) = mset events"
    by (simp add: build_timeline_def)
  have s: "sorted (map sort_key_of (build_timeline events))"
    by (simp add: build_timeline_def)
  then show "sorted_wrt (\<lambda>a b. timestamp a < timestamp b
                    \<or> (timestamp a = timestamp b \<and> event_id a \<le> event_id b))
        (build_timeline events)"
    by (simp add: sorted_map lex_key_le)
  assume d: "distinct (map event_id events)"
  have "mset (map event_id (build_timeline events)) = mset (map event_id events)"
    using m by simp
  then have "distinct (map event_id (build_timeline events))"
    using d by (metis mset_eq_imp_distinct_iff)
  then have "distinct (map sort_key_of (build_timeline events))"
    by (rule distinct_keys)
  with s have "sorted_wrt (<) (map sort_key_of (build_timeline events))"
    by (simp add: strict_sorted_iff)
  then show "sorted_wrt (\<lambda>a b. timestamp a < timestamp b
                    \<or> (timestamp a = timestamp b \<and> event_id a < event_id b))
          (build_timeline events)"
    by (simp add: sorted_wrt_map lex_key_less)
qed

theorem build_timeline_ordered_witness:
  "distinct (map event_id
      [\<lparr>event_id = ''b'', event_entity_id = ''c1'', event_type = ''updated'',
         timestamp = ''2024-03'', payload = []\<rparr>,
       \<lparr>event_id = ''a'', event_entity_id = ''c1'', event_type = ''updated'',
         timestamp = ''2024-03'', payload = []\<rparr>,
       \<lparr>event_id = ''c'', event_entity_id = ''c1'', event_type = ''created'',
         timestamp = ''2024-01'', payload = []\<rparr>])
   \<and> sorted_wrt (\<lambda>a b. timestamp a < timestamp b
                    \<or> (timestamp a = timestamp b \<and> event_id a < event_id b))
        (build_timeline
          [\<lparr>event_id = ''b'', event_entity_id = ''c1'', event_type = ''updated'',
             timestamp = ''2024-03'', payload = []\<rparr>,
           \<lparr>event_id = ''a'', event_entity_id = ''c1'', event_type = ''updated'',
             timestamp = ''2024-03'', payload = []\<rparr>,
           \<lparr>event_id = ''c'', event_entity_id = ''c1'', event_type = ''created'',
             timestamp = ''2024-01'', payload = []\<rparr>])
   \<and> build_timeline
          [\<lparr>event_id = ''b'', event_entity_id = ''c1'', event_type = ''updated'',
             timestamp = ''2024-03'', payload = []\<rparr>,
           \<lparr>event_id = ''a'', event_entity_id = ''c1'', event_type = ''updated'',
             timestamp = ''2024-03'', payload = []\<rparr>,
           \<lparr>event_id = ''c'', event_entity_id = ''c1'', event_type = ''created'',
             timestamp = ''2024-01'', payload = []\<rparr>]
       = [\<lparr>event_id = ''c'', event_entity_id = ''c1'', event_type = ''created'',
             timestamp = ''2024-01'', payload = []\<rparr>,
          \<lparr>event_id = ''a'', event_entity_id = ''c1'', event_type = ''updated'',
             timestamp = ''2024-03'', payload = []\<rparr>,
          \<lparr>event_id = ''b'', event_entity_id = ''c1'', event_type = ''updated'',
             timestamp = ''2024-03'', payload = []\<rparr>]"
proof (intro conjI)
  let ?evs = "[\<lparr>event_id = ''b'', event_entity_id = ''c1'', event_type = ''updated'',
         timestamp = ''2024-03'', payload = []\<rparr>,
       \<lparr>event_id = ''a'', event_entity_id = ''c1'', event_type = ''updated'',
         timestamp = ''2024-03'', payload = []\<rparr>,
       \<lparr>event_id = ''c'', event_entity_id = ''c1'', event_type = ''created'',
         timestamp = ''2024-01'', payload = []\<rparr>]"
  show d: "distinct (map event_id ?evs)" by simp
  from build_timeline_ordered [of ?evs] d
  show "sorted_wrt (\<lambda>a b. timestamp a < timestamp b
                    \<or> (timestamp a = timestamp b \<and> event_id a < event_id b))
        (build_timeline ?evs)" by blast
  show "build_timeline ?evs = [\<lparr>event_id = ''c'', event_entity_id = ''c1'', event_type = ''created'',
             timestamp = ''2024-01'', payload = []\<rparr>,
          \<lparr>event_id = ''a'', event_entity_id = ''c1'', event_type = ''updated'',
             timestamp = ''2024-03'', payload = []\<rparr>,
          \<lparr>event_id = ''b'', event_entity_id = ''c1'', event_type = ''updated'',
             timestamp = ''2024-03'', payload = []\<rparr>]"
    by (simp add: build_timeline_def sort_key_of_def less_eq_prod_def)
qed

subsection \<open>Equality of values and the diff\<close>

lemma float_eq_refl: "x \<noteq> NaN \<Longrightarrow> float_eq x x"
  by (cases x) simp_all

lemma py_eq_refl: "nan_free v \<Longrightarrow> py_eq v v"
proof (induction v)
  case (JFloat x)
  then show ?case by (simp add: float_eq_refl)
next
  case (JList xs)
  then show ?case by (simp add: list_all2_same list_all_iff)
next
  case (JDict d)
  have "py_eq v v" if "map_of d k = Some v" for k v
  proof -
    from that have m: "(k, v) \<in> set d" by (rule map_of_SomeD)
    with JDict.prems have "nan_free v" by (auto simp: list_all_iff)
    with m JDict.IH show ?thesis by fastforce
  qed
  then show ?case
    by (auto simp: list_all_iff split: option.splits dest: weak_map_of_SomeI)
qed simp_all









subsection \<open>The branches of the event reducer\<close>

lemma apply_event_created:
  "event_type e = ''created'' \<Longrightarrow>
   apply_event snap e =
     (case snap of
        Some s \<Rightarrow> if \<not> deleted s then Inl (ValueError (Msg_already_exists (event_entity_id e)))
                  else Inr (new_snapshot e (payload e) False)
      | None \<Rightarrow> Inr (new_snapshot e (payload e) False))"
  by (simp add: apply_event_def Let_def deepcopy_def cong: option.case_cong if_cong)

lemma apply_event_updated:
  "event_type e = ''updated'' \<Longrightarrow>
   apply_event snap e =
     (case snap of
        None \<Rightarrow> Inl (ValueError (Msg_does_not_exist ''update'' (event_entity_id e)))
      | Some s \<Rightarrow>
          if deleted s then Inl (ValueError (Msg_has_been_deleted ''update'' (event_entity_id e)))
          else Inr (new_snapshot e (dict_update_all (state s) (payload e)) False))"
  by (simp add: apply_event_def Let_def deepcopy_def cong: option.case_cong if_cong)

lemma apply_event_deleted:
  "event_type e = ''deleted'' \<Longrightarrow>
   apply_event snap e =
     (case snap of
        None \<Rightarrow> Inl (ValueError (Msg_does_not_exist ''delete'' (event_entity_id e)))
      | Some s \<Rightarrow>
          if deleted s then Inl (ValueError (Msg_already_deleted (event_entity_id e)))
          else Inr (new_snapshot e [(''_deleted_state'', JDict (state s))] True))"
  by (simp add: apply_event_def Let_def deepcopy_def cong: option.case_cong if_cong)

lemma apply_event_relationship_added:
  "event_type e = ''relationship_added'' \<Longrightarrow>
   apply_event snap e =
     (case snap of
        None \<Rightarrow> Inl (ValueError (Msg_does_not_exist ''add relationship to'' (event_entity_id e)))
      | Some s \<Rightarrow>
          if deleted s
          then Inl (ValueError (Msg_has_been_deleted ''add relationship to'' (event_entity_id e)))
          else
            (let new_state = (if map_of (state s) ''relationships'' = None
                              then dict_set ''relationships'' (JList []) (state s)
                              else state s)
             in case dict_get new_state ''relationships'' of
                  JList rels \<Rightarrow>
                    (case relationship_record (payload e) of
                       Inl err \<Rightarrow> Inl err
                     | Inr r \<Rightarrow>
                         Inr (new_snapshot e
                               (dict_set ''relationships'' (JList (rels @ [r])) new_state)
                               False))
                | _ \<Rightarrow> Inl AttributeError))"
  by (simp add: apply_event_def Let_def deepcopy_def cong: option.case_cong if_cong)

lemma apply_event_relationship_removed:
  "event_type e = ''relationship_removed'' \<Longrightarrow>
   apply_event snap e =
     (case snap of
        None \<Rightarrow>
          Inl (ValueError (Msg_does_not_exist ''remove relationship from'' (event_entity_id e)))
      | Some s \<Rightarrow>
          if deleted s
          then Inl (ValueError
                 (Msg_has_been_deleted ''remove relationship from'' (event_entity_id e)))
          else
            (case py_iter (dict_get_default (state s) ''relationships'' (JList [])) of
               Inl err \<Rightarrow> Inl err
             | Inr items \<Rightarrow>
                 (case keep_unmatched (dict_get (payload e) ''target_entity'')
                         (dict_get (payload e) ''relationship_type'') items of
                    Inl err \<Rightarrow> Inl err
                  | Inr new_relationships \<Rightarrow>
                      if length new_relationships = length items
                      then Inl (ValueError (Msg_relationship_not_found
                             (dict_get (payload e) ''relationship_type'')
                             (dict_get (payload e) ''target_entity'')))
                      else Inr (new_snapshot e
                             (dict_set ''relationships'' (JList new_relationships) (state s))
                             False))))"
  by (simp add: apply_event_def Let_def deepcopy_def cong: option.case_cong if_cong)

lemma apply_event_unknown:
  "event_type e \<notin> set valid_types \<Longrightarrow>
   apply_event snap e = Inl (ValueError (Msg_unknown_event_type (event_type e)))"
  by (simp add: apply_event_def Let_def valid_types_def)

lemma map_of_dict_set:
  "map_of (dict_set k v d) k' = (if k' = k then Some v else map_of d k')"
  by (induction d) auto

lemma map_of_dict_update_all_other:
  "k \<notin> fst ` set kvs \<Longrightarrow> map_of (dict_update_all d kvs) k = map_of d k"
  by (induction d kvs rule: dict_update_all.induct) (auto simp: map_of_dict_set)

lemma map_of_dict_update_all_in:
  "distinct (map fst kvs) \<Longrightarrow> map_of kvs k = Some v \<Longrightarrow>
   map_of (dict_update_all d kvs) k = Some v"
proof (induction d kvs rule: dict_update_all.induct)
  case (2 d k' v' kvs)
  show ?case
  proof (cases "k = k'")
    case True
    with 2(2,3) have "v' = v" and "k \<notin> fst ` set kvs" by auto
    with True show ?thesis by (simp add: map_of_dict_update_all_other map_of_dict_set)
  next
    case False
    with 2 show ?thesis by simp
  qed
qed simp

lemma keys_dict_set: "fst ` set (dict_set k v d) = insert k (fst ` set d)"
  by (induction d) auto

lemma keys_dict_update_all:
  "fst ` set (dict_update_all d kvs) = fst ` set d \<union> fst ` set kvs"
  by (induction d kvs rule: dict_update_all.induct) (auto simp: keys_dict_set)

lemma relationships_of_dict_set:
  "relationships_of (dict_set ''relationships'' (JList rs) st) = rs"
  by (simp add: relationships_of_def map_of_dict_set)

lemma relationships_ok_dict_set:
  "relationships_ok d \<Longrightarrow> (k = ''relationships'' \<longrightarrow> is_record_list v) \<Longrightarrow>
   relationships_ok (dict_set k v d)"
  by (induction d) (auto simp: relationships_ok_def)

lemma relationships_ok_dict_update_all:
  "relationships_ok d \<Longrightarrow> relationships_ok kvs \<Longrightarrow> relationships_ok (dict_update_all d kvs)"
proof (induction d kvs rule: dict_update_all.induct)
  case (2 d k v kvs)
  from 2(3) have "k = ''relationships'' \<longrightarrow> is_record_list v" and "relationships_ok kvs"
    by (auto simp: relationships_ok_def)
  with 2(1,2) show ?case by (simp add: relationships_ok_dict_set)
qed simp

lemma length_filter_same: "length (filter P xs) = length xs \<longleftrightarrow> (\<forall>x \<in> set xs. P x)"
proof (induction xs)
  case (Cons x xs)
  have "length (filter P xs) \<le> length xs" by simp
  then have "length (filter P xs) \<noteq> Suc (length xs)" by arith
  with Cons show ?case by auto
qed simp

lemma keep_unmatched_records:
  "list_all is_mapping rs \<Longrightarrow>
   keep_unmatched (dict_get pl ''target_entity'') (dict_get pl ''relationship_type'') rs =
     Inr (filter (\<lambda>r. \<not> record_matches pl r) rs)"
proof (induction rs)
  case (Cons r rs)
  then obtain d where "r = JDict d" by (cases r) auto
  with Cons show ?case
    by (auto simp: record_matches_def rel_matches_def)
qed simp

lemma relationships_typed:
  assumes "relationships_ok st"
  shows "py_iter (dict_get_default st ''relationships'' (JList [])) = Inr (relationships_of st)"
    and "list_all is_mapping (relationships_of st)"
proof -
  have *: "is_record_list v" if "map_of st ''relationships'' = Some v" for v
  proof -
    from that have "(''relationships'', v) \<in> set st" by (rule map_of_SomeD)
    with assms show ?thesis by (auto simp: relationships_ok_def list_all_iff)
  qed
  show "py_iter (dict_get_default st ''relationships'' (JList [])) = Inr (relationships_of st)"
  proof (cases "map_of st ''relationships''")
    case None
    then show ?thesis by (simp add: dict_get_default_def relationships_of_def)
  next
    case (Some v)
    with * have "is_record_list v" by simp
    then obtain rs where "v = JList rs" by (cases v) auto
    with Some show ?thesis by (simp add: dict_get_default_def relationships_of_def)
  qed
  show "list_all is_mapping (relationships_of st)"
  proof (cases "map_of st ''relationships''")
    case None
    then show ?thesis by (simp add: relationships_of_def)
  next
    case (Some v)
    with * have r: "is_record_list v" by simp
    then obtain rs where "v = JList rs" by (cases v) auto
    with Some r show ?thesis by (simp add: relationships_of_def)
  qed
qed

lemma relationship_removed_live:
  assumes "event_type e = ''relationship_removed''" and "\<not> deleted s"
    and "relationships_ok (state s)"
  shows "apply_event (Some s) e =
     (if list_ex (record_matches (payload e)) (relationships_of (state s))
      then Inr (new_snapshot e
             (dict_set ''relationships''
                (JList (filter (\<lambda>r. \<not> record_matches (payload e) r) (relationships_of (state s))))
                (state s))
             False)
      else Inl (ValueError (Msg_relationship_not_found
             (dict_get (payload e) ''relationship_type'')
             (dict_get (payload e) ''target_entity''))))"
proof -
  note t = relationships_typed [OF assms(3)]
  have k: "keep_unmatched (dict_get (payload e) ''target_entity'')
             (dict_get (payload e) ''relationship_type'') (relationships_of (state s)) =
           Inr (filter (\<lambda>r. \<not> record_matches (payload e) r) (relationships_of (state s)))"
    by (rule keep_unmatched_records [OF t(2)])
  show ?thesis
    using assms(1,2)
    by (simp add: apply_event_relationship_removed t(1) k length_filter_same list_ex_iff)
qed

lemma properties_typed:
  assumes "properties_ok pl"
  shows "relationship_record pl =
     Inr (JDict (dict_update_all
       [(''type'', dict_get pl ''relationship_type''),
        (''target'', dict_get pl ''target_entity'')] (properties_of pl)))"
proof (cases "map_of pl ''properties''")
  case None
  then show ?thesis
    by (simp add: relationship_record_def dict_get_default_def properties_of_def)
next
  case (Some v)
  then have "(''properties'', v) \<in> set pl" by (rule map_of_SomeD)
  with assms have "is_mapping v" by (auto simp: properties_ok_def list_all_iff)
  then obtain p where "v = JDict p" by (cases v) auto
  with Some show ?thesis
    by (simp add: relationship_record_def dict_get_default_def properties_of_def)
qed

lemma relationship_added_live:
  assumes "event_type e = ''relationship_added''" and "\<not> deleted s"
    and "relationships_ok (state s)" and "properties_ok (payload e)"
  shows "apply_event (Some s) e =
     Inr (new_snapshot e
           (dict_set ''relationships''
              (JList (relationships_of (state s) @
                 [JDict (dict_update_all
                    [(''type'', dict_get (payload e) ''relationship_type''),
                     (''target'', dict_get (payload e) ''target_entity'')]
                    (properties_of (payload e)))]))
              (if map_of (state s) ''relationships'' = None
               then dict_set ''relationships'' (JList []) (state s) else state s))
           False)"
proof (cases "map_of (state s) ''relationships''")
  case None
  then show ?thesis
    using assms(1,2)
    by (simp add: apply_event_relationship_added properties_typed [OF assms(4)]
          dict_get_def dict_get_default_def map_of_dict_set relationships_of_def)
next
  case (Some v)
  then have "(''relationships'', v) \<in> set (state s)" by (rule map_of_SomeD)
  with assms(3) have "is_record_list v" by (auto simp: relationships_ok_def list_all_iff)
  then obtain rs where "v = JList rs" by (cases v) auto
  with Some show ?thesis
    using assms(1,2)
    by (simp add: apply_event_relationship_added properties_typed [OF assms(4)]
          dict_get_def dict_get_default_def relationships_of_def)
qed

lemma apply_event_typed:
  assumes "snapshot_ok snap" and "event_ok e"
  shows "(\<exists>s. apply_event snap e = Inr s \<and> relationships_ok (state s))
         \<or> (\<exists>m. apply_event snap e = Inl (ValueError m))"
proof -
  from assms(2) have rp: "relationships_ok (payload e)"
    if "event_type e = ''created'' \<or> event_type e = ''updated''"
    using that by (simp add: event_ok_def)
  from assms(2) have pp: "properties_ok (payload e)" if "event_type e = ''relationship_added''"
    using that by (simp add: event_ok_def)
  consider (created) "event_type e = ''created''"
    | (updated) "event_type e = ''updated''"
    | (deleted) "event_type e = ''deleted''"
    | (added) "event_type e = ''relationship_added''"
    | (removed) "event_type e = ''relationship_removed''"
    | (unknown) "event_type e \<notin> set valid_types"
    by (auto simp: valid_types_def)
  then show ?thesis
  proof cases
    case created
    with rp have "relationships_ok (payload e)" by simp
    with created show ?thesis
      by (simp add: apply_event_created new_snapshot_def split: option.splits)
  next
    case updated
    with rp have "relationships_ok (payload e)" by simp
    with updated assms(1) show ?thesis
      by (simp add: apply_event_updated new_snapshot_def snapshot_ok_def
            relationships_ok_dict_update_all split: option.splits)
  next
    case deleted
    then show ?thesis
      by (simp add: apply_event_deleted new_snapshot_def relationships_ok_def
            split: option.splits)
  next
    case added
    show ?thesis
    proof (cases snap)
      case None
      with added show ?thesis by (simp add: apply_event_relationship_added)
    next
      case (Some s)
      show ?thesis
      proof (cases "deleted s")
        case True
        with added Some show ?thesis by (simp add: apply_event_relationship_added)
      next
        case False
        from assms(1) Some have ok: "relationships_ok (state s)" by (simp add: snapshot_ok_def)
        have "list_all is_mapping (relationships_of (state s))"
          by (rule relationships_typed(2) [OF ok])
        with relationship_added_live [OF added False ok pp [OF added]] ok Some show ?thesis
          by (simp add: new_snapshot_def relationships_ok_dict_set)
      qed
    qed
  next
    case removed
    show ?thesis
    proof (cases snap)
      case None
      with removed show ?thesis by (simp add: apply_event_relationship_removed)
    next
      case (Some s)
      show ?thesis
      proof (cases "deleted s")
        case True
        with removed Some show ?thesis by (simp add: apply_event_relationship_removed)
      next
        case False
        from assms(1) Some have ok: "relationships_ok (state s)" by (simp add: snapshot_ok_def)
        have "list_all is_mapping (relationships_of (state s))"
          by (rule relationships_typed(2) [OF ok])
        then have "list_all is_mapping
           (filter (\<lambda>r. \<not> record_matches (payload e) r) (relationships_of (state s)))"
          by (simp add: list_all_iff)
        with relationship_removed_live [OF removed False ok] ok Some show ?thesis
          by (simp add: new_snapshot_def relationships_ok_dict_set)
      qed
    qed
  next
    case unknown
    then show ?thesis by (simp add: apply_event_unknown)
  qed
qed

subsection \<open>Preconditions of the event reducer\<close>

text \<open>
  Claim C1, as stated, fails: the reducer checks no type of what it reads. A
  \<^verbatim>\<open>relationship_added\<close> event whose payload has \<^verbatim>\<open>properties\<close> null, applied to a live
  snapshot, violates no precondition, yet the application does not return a snapshot: the
  \<^verbatim>\<open>**\<close> of the record literal raises \<^verbatim>\<open>TypeError\<close>.
\<close>

theorem apply_event_null_properties_counterexample:
  "expected_failure (Some (snap_of [(''status'', JStr ''active'')])) evt_add_null_properties = None
   \<and> apply_event (Some (snap_of [(''status'', JStr ''active'')])) evt_add_null_properties
       = Inl TypeError"
  by (simp add: expected_failure_def mutating_def apply_event_def evt_add_null_properties_def
        snap_of_def new_snapshot_def deepcopy_def dict_get_def dict_get_default_def
        relationship_record_def)

text \<open>
  Claim C1, amended. For every optional prior snapshot and every event such that, when
  \<^verbatim>\<open>relationship_added\<close> or \<^verbatim>\<open>relationship_removed\<close> meets a live snapshot, the
  relationships of the state are a sequence of records and, for \<^verbatim>\<open>relationship_added\<close>,
  the properties of the payload are a mapping: \<^verbatim>\<open>apply_event\<close> fails exactly when the
  precondition of the event type is violated, with the failure of the table
  \<open>expected_failure\<close>: \<^verbatim>\<open>created\<close> on a live snapshot fails with entity-already-exists;
  \<^verbatim>\<open>updated\<close>, \<^verbatim>\<open>deleted\<close>, \<^verbatim>\<open>relationship_added\<close> and \<^verbatim>\<open>relationship_removed\<close>
  fail with entity-not-found on an absent snapshot and with entity-deleted on a deleted one;
  \<^verbatim>\<open>relationship_removed\<close> without a matching record fails with relationship-not-found;
  any other event type fails with unknown-event-type; in all other cases the application
  returns a snapshot.
\<close>

theorem apply_event_preconditions:
  assumes "application_ok snap e"
  shows "case expected_failure snap e of
           None \<Rightarrow> (\<exists>s'. apply_event snap e = Inr s')
         | Some f \<Rightarrow> (\<exists>err. apply_event snap e = Inl err \<and> failure_of err = Some f)"
proof -
  consider (created) "event_type e = ''created''"
    | (updated) "event_type e = ''updated''"
    | (deleted) "event_type e = ''deleted''"
    | (added) "event_type e = ''relationship_added''"
    | (removed) "event_type e = ''relationship_removed''"
    | (unknown) "event_type e \<notin> set valid_types"
    by (auto simp: valid_types_def)
  then show ?thesis
  proof cases
    case created
    then show ?thesis
      by (simp add: expected_failure_def apply_event_created split: option.splits)
  next
    case updated
    then show ?thesis
      by (simp add: expected_failure_def mutating_def apply_event_updated split: option.splits)
  next
    case deleted
    then show ?thesis
      by (simp add: expected_failure_def mutating_def apply_event_deleted split: option.splits)
  next
    case added
    show ?thesis
    proof (cases snap)
      case None
      with added show ?thesis
        by (simp add: expected_failure_def mutating_def apply_event_relationship_added)
    next
      case (Some s)
      show ?thesis
      proof (cases "deleted s")
        case True
        with added Some show ?thesis
          by (simp add: expected_failure_def mutating_def apply_event_relationship_added)
      next
        case False
        from assms added Some False
        have "relationships_ok (state s)" and "properties_ok (payload e)"
          by (simp_all add: application_ok_def)
        from relationship_added_live [OF added False this] added Some False
        show ?thesis
          by (simp add: expected_failure_def mutating_def)
      qed
    qed
  next
    case removed
    show ?thesis
    proof (cases snap)
      case None
      with removed show ?thesis
        by (simp add: expected_failure_def mutating_def apply_event_relationship_removed)
    next
      case (Some s)
      show ?thesis
      proof (cases "deleted s")
        case True
        with removed Some show ?thesis
          by (simp add: expected_failure_def mutating_def apply_event_relationship_removed)
      next
        case False
        from assms removed Some False have "relationships_ok (state s)"
          by (simp add: application_ok_def)
        from relationship_removed_live [OF removed False this] removed Some False
        show ?thesis
          by (simp add: expected_failure_def mutating_def)
      qed
    qed
  next
    case unknown
    then have "event_type e \<noteq> ''created''" "event_type e \<notin> set mutating"
      by (auto simp: valid_types_def mutating_def)
    with unknown show ?thesis
      by (simp add: expected_failure_def apply_event_unknown)
  qed
qed

theorem apply_event_preconditions_witness:
  "expected_failure None evt_002 = Some EntityNotFound
   \<and> (\<exists>err. apply_event None evt_002 = Inl err \<and> failure_of err = Some EntityNotFound)
   \<and> expected_failure (Some (snap_of [(''relationships'', JList [employs_789])])) evt_remove
       = Some RelationshipNotFound
   \<and> (\<exists>err. apply_event (Some (snap_of [(''relationships'', JList [employs_789])])) evt_remove
               = Inl err \<and> failure_of err = Some RelationshipNotFound)
   \<and> expected_failure (Some (snap_of [(''relationships'', JList [employs_789])])) evt_003 = None
   \<and> (\<exists>s'. apply_event (Some (snap_of [(''relationships'', JList [employs_789])])) evt_003
              = Inr s')"
proof -
  have 1: "expected_failure None evt_002 = Some EntityNotFound"
    by (simp add: expected_failure_def evt_002_def mutating_def)
  have 2: "expected_failure (Some (snap_of [(''relationships'', JList [employs_789])])) evt_remove
       = Some RelationshipNotFound"
    by (simp add: expected_failure_def evt_remove_def mutating_def snap_of_def new_snapshot_def
          relationships_of_def record_matches_def employs_789_def dict_get_def
          dict_get_default_def)
  have 3: "expected_failure (Some (snap_of [(''relationships'', JList [employs_789])])) evt_003
       = None"
    by (simp add: expected_failure_def evt_003_def mutating_def snap_of_def new_snapshot_def)
  have ok: "relationships_ok (state (snap_of [(''relationships'', JList [employs_789])]))"
    by (simp add: relationships_ok_def snap_of_def new_snapshot_def employs_789_def)
  have o2: "application_ok None evt_002" by (simp add: application_ok_def)
  have p3: "properties_ok (payload evt_003)"
    by (simp add: properties_ok_def evt_003_def)
  from ok have or: "application_ok (Some (snap_of [(''relationships'', JList [employs_789])]))
                      evt_remove"
    by (simp add: application_ok_def evt_remove_def)
  from ok p3 have o3: "application_ok (Some (snap_of [(''relationships'', JList [employs_789])]))
                        evt_003"
    by (simp add: application_ok_def)
  from apply_event_preconditions [OF o2] 1
  have a: "\<exists>err. apply_event None evt_002 = Inl err \<and> failure_of err = Some EntityNotFound"
    by simp
  from apply_event_preconditions [OF or] 2
  have b: "\<exists>err. apply_event (Some (snap_of [(''relationships'', JList [employs_789])])) evt_remove
               = Inl err \<and> failure_of err = Some RelationshipNotFound"
    by simp
  from apply_event_preconditions [OF o3] 3
  have c: "\<exists>s'. apply_event (Some (snap_of [(''relationships'', JList [employs_789])])) evt_003
              = Inr s'"
    by simp
  from 1 2 3 a b c show ?thesis by blast
qed

subsection \<open>Removing and adding relationships\<close>



text \<open>
  Claim C10, as stated, fails: the keys of \<^verbatim>\<open>payload.properties\<close> are merged over
  \<^verbatim>\<open>type\<close> and \<^verbatim>\<open>target\<close>. A payload without \<^verbatim>\<open>relationship_type\<close> whose properties
  hold a key \<^verbatim>\<open>type\<close> yields a record whose type is that value, not null.
\<close>

theorem relationship_added_override_counterexample:
  "map_of (payload evt_add_override) ''relationship_type'' = None
   \<and> apply_event (Some (snap_of [])) evt_add_override =
       Inr (new_snapshot evt_add_override
         [(''relationships'',
           JList [JDict [(''type'', JStr ''advises''), (''target'', JStr ''person-456'')]])]
         False)"
  by (simp add: apply_event_def evt_add_override_def snap_of_def new_snapshot_def deepcopy_def
        dict_get_def dict_get_default_def relationship_record_def)

text \<open>
  Claim C10, amended. On a live snapshot, \<^verbatim>\<open>relationship_added\<close> succeeds also when
  its payload lacks \<^verbatim>\<open>relationship_type\<close>, \<^verbatim>\<open>target_entity\<close> or \<^verbatim>\<open>properties\<close>,
  and appends one record, \<^verbatim>\<open>type\<close> and \<^verbatim>\<open>target\<close> merged with the properties. The keys
  of the record are \<^verbatim>\<open>type\<close>, \<^verbatim>\<open>target\<close> and the keys of the properties. Every key of
  the properties is in the record with the value the properties give it (the keys of a
  mapping being pairwise different), so that a properties key \<^verbatim>\<open>type\<close> or \<^verbatim>\<open>target\<close>
  overrides. Where the properties have no key \<^verbatim>\<open>type\<close>, the type of the record is the
  payload's \<^verbatim>\<open>relationship_type\<close>, null when that is missing; likewise for
  \<^verbatim>\<open>target\<close> and \<^verbatim>\<open>target_entity\<close>. When \<^verbatim>\<open>properties\<close> is missing the record has the
  two keys \<^verbatim>\<open>type\<close> and \<^verbatim>\<open>target\<close> only.
\<close>

theorem relationship_added_defaults:
  assumes "event_type e = ''relationship_added''" and "\<not> deleted s"
    and "relationships_ok (state s)" and "properties_ok (payload e)"
  shows "\<exists>s' r. apply_event (Some s) e = Inr s'
     \<and> relationships_of (state s') = relationships_of (state s) @ [JDict r]
     \<and> fst ` set r = {''type'', ''target''} \<union> fst ` set (properties_of (payload e))
     \<and> (distinct (map fst (properties_of (payload e)))
        \<longrightarrow> (\<forall>k v. map_of (properties_of (payload e)) k = Some v \<longrightarrow> map_of r k = Some v))
     \<and> (''type'' \<notin> fst ` set (properties_of (payload e))
        \<longrightarrow> map_of r ''type'' = Some (dict_get (payload e) ''relationship_type''))
     \<and> (''target'' \<notin> fst ` set (properties_of (payload e))
        \<longrightarrow> map_of r ''target'' = Some (dict_get (payload e) ''target_entity''))
     \<and> (map_of (payload e) ''relationship_type'' = None
          \<and> ''type'' \<notin> fst ` set (properties_of (payload e))
        \<longrightarrow> map_of r ''type'' = Some JNull)
     \<and> (map_of (payload e) ''target_entity'' = None
          \<and> ''target'' \<notin> fst ` set (properties_of (payload e))
        \<longrightarrow> map_of r ''target'' = Some JNull)
     \<and> (map_of (payload e) ''properties'' = None
        \<longrightarrow> r = [(''type'', dict_get (payload e) ''relationship_type''),
                 (''target'', dict_get (payload e) ''target_entity'')])"
proof -
  let ?r = "dict_update_all
              [(''type'', dict_get (payload e) ''relationship_type''),
               (''target'', dict_get (payload e) ''target_entity'')]
              (properties_of (payload e))"
  let ?s' = "new_snapshot e
           (dict_set ''relationships'' (JList (relationships_of (state s) @ [JDict ?r]))
              (if map_of (state s) ''relationships'' = None
               then dict_set ''relationships'' (JList []) (state s) else state s))
           False"
  have 1: "apply_event (Some s) e = Inr ?s'"
    by (rule relationship_added_live [OF assms])
  have 2: "relationships_of (state ?s') = relationships_of (state s) @ [JDict ?r]"
    by (simp add: new_snapshot_def relationships_of_dict_set)
  have 3: "map_of ?r ''type'' = Some (dict_get (payload e) ''relationship_type'')"
    if "''type'' \<notin> fst ` set (properties_of (payload e))"
    using that by (simp add: map_of_dict_update_all_other)
  have 4: "map_of ?r ''target'' = Some (dict_get (payload e) ''target_entity'')"
    if "''target'' \<notin> fst ` set (properties_of (payload e))"
    using that by (simp add: map_of_dict_update_all_other)
  have 5: "?r = [(''type'', dict_get (payload e) ''relationship_type''),
                 (''target'', dict_get (payload e) ''target_entity'')]"
    if "map_of (payload e) ''properties'' = None"
    using that by (simp add: properties_of_def)
  have 6: "fst ` set ?r = {''type'', ''target''} \<union> fst ` set (properties_of (payload e))"
    by (simp add: keys_dict_update_all)
  have 7: "map_of ?r k = Some v"
    if "distinct (map fst (properties_of (payload e)))"
      and "map_of (properties_of (payload e)) k = Some v" for k v
    using that by (rule map_of_dict_update_all_in)
  have 8: "dict_get (payload e) k = JNull" if "map_of (payload e) k = None" for k
    using that by (simp add: dict_get_def dict_get_default_def)
  show ?thesis
  proof (intro exI conjI impI allI)
    show "apply_event (Some s) e = Inr ?s'" by (rule 1)
    show "relationships_of (state ?s') = relationships_of (state s) @ [JDict ?r]" by (rule 2)
    show "fst ` set ?r = {''type'', ''target''} \<union> fst ` set (properties_of (payload e))"
      by (rule 6)
    show "map_of ?r k = Some v"
      if "distinct (map fst (properties_of (payload e)))"
        and "map_of (properties_of (payload e)) k = Some v" for k v
      using that by (rule 7)
    show "map_of ?r ''type'' = Some (dict_get (payload e) ''relationship_type'')"
      if "''type'' \<notin> fst ` set (properties_of (payload e))"
      using that by (rule 3)
    show "map_of ?r ''target'' = Some (dict_get (payload e) ''target_entity'')"
      if "''target'' \<notin> fst ` set (properties_of (payload e))"
      using that by (rule 4)
    show "map_of ?r ''type'' = Some JNull"
      if "map_of (payload e) ''relationship_type'' = None
          \<and> ''type'' \<notin> fst ` set (properties_of (payload e))"
      using that 3 8 by simp
    show "map_of ?r ''target'' = Some JNull"
      if "map_of (payload e) ''target_entity'' = None
          \<and> ''target'' \<notin> fst ` set (properties_of (payload e))"
      using that 4 8 by simp
    show "?r = [(''type'', dict_get (payload e) ''relationship_type''),
                 (''target'', dict_get (payload e) ''target_entity'')]"
      if "map_of (payload e) ''properties'' = None"
      using that by (rule 5)
  qed
qed

theorem relationship_added_defaults_witness:
  "map_of (payload evt_add_bare) ''relationship_type'' = None
   \<and> map_of (payload evt_add_bare) ''target_entity'' = None
   \<and> map_of (payload evt_add_bare) ''properties'' = None
   \<and> (\<exists>s'. apply_event (Some (snap_of [(''status'', JStr ''active'')])) evt_add_bare = Inr s'
          \<and> relationships_of (state s') = [JDict [(''type'', JNull), (''target'', JNull)]])
   \<and> map_of (payload evt_add_override) ''relationship_type'' = None
   \<and> properties_of (payload evt_add_override) = [(''type'', JStr ''advises'')]
   \<and> (\<exists>s' r. apply_event (Some (snap_of [(''status'', JStr ''active'')])) evt_add_override
                = Inr s'
          \<and> relationships_of (state s') = [JDict r]
          \<and> fst ` set r = {''type'', ''target''}
          \<and> map_of r ''type'' = Some (JStr ''advises'')
          \<and> map_of r ''target'' = Some (JStr ''person-456''))"
proof -
  let ?s = "snap_of [(''status'', JStr ''active'')]"
  have rels: "relationships_of (state ?s) = []"
    by (simp add: relationships_of_def snap_of_def new_snapshot_def)
  have 1: "event_type evt_add_bare = ''relationship_added''" by (simp add: evt_add_bare_def)
  have 2: "\<not> deleted ?s" by (simp add: snap_of_def new_snapshot_def)
  have 3: "relationships_ok (state ?s)"
    by (simp add: relationships_ok_def snap_of_def new_snapshot_def)
  have 4: "properties_ok (payload evt_add_bare)"
    by (simp add: properties_ok_def evt_add_bare_def)
  have p: "map_of (payload evt_add_bare) ''properties'' = None"
    by (simp add: evt_add_bare_def)
  have g: "dict_get (payload evt_add_bare) k = JNull" for k
    by (simp add: evt_add_bare_def dict_get_def dict_get_default_def)
  from relationship_added_defaults [OF 1 2 3 4] p
  have "\<exists>s'. apply_event (Some ?s) evt_add_bare = Inr s'
          \<and> relationships_of (state s') = [JDict [(''type'', JNull), (''target'', JNull)]]"
    unfolding rels g by auto
  then have bare: "map_of (payload evt_add_bare) ''relationship_type'' = None
   \<and> map_of (payload evt_add_bare) ''target_entity'' = None
   \<and> map_of (payload evt_add_bare) ''properties'' = None
   \<and> (\<exists>s'. apply_event (Some ?s) evt_add_bare = Inr s'
          \<and> relationships_of (state s') = [JDict [(''type'', JNull), (''target'', JNull)]])"
    by (simp add: evt_add_bare_def)
  have o1: "event_type evt_add_override = ''relationship_added''"
    by (simp add: evt_add_override_def)
  have o4: "properties_ok (payload evt_add_override)"
    by (simp add: properties_ok_def evt_add_override_def)
  have po: "properties_of (payload evt_add_override) = [(''type'', JStr ''advises'')]"
    by (simp add: properties_of_def evt_add_override_def)
  have to: "map_of (payload evt_add_override) ''relationship_type'' = None"
    by (simp add: evt_add_override_def)
  have go: "dict_get (payload evt_add_override) ''target_entity'' = JStr ''person-456''"
    by (simp add: evt_add_override_def dict_get_def dict_get_default_def)
  from relationship_added_defaults [OF o1 2 3 o4] obtain s' r where
    a: "apply_event (Some ?s) evt_add_override = Inr s'"
    and b: "relationships_of (state s') = relationships_of (state ?s) @ [JDict r]"
    and c: "fst ` set r = {''type'', ''target''}
              \<union> fst ` set (properties_of (payload evt_add_override))"
    and d: "distinct (map fst (properties_of (payload evt_add_override)))
        \<longrightarrow> (\<forall>k v. map_of (properties_of (payload evt_add_override)) k = Some v
                   \<longrightarrow> map_of r k = Some v)"
    and f: "''target'' \<notin> fst ` set (properties_of (payload evt_add_override))
        \<longrightarrow> map_of r ''target'' = Some (dict_get (payload evt_add_override) ''target_entity'')"
    by (elim exE conjE) (rule that)
  from b have b': "relationships_of (state s') = [JDict r]" unfolding rels by simp
  from c have c': "fst ` set r = {''type'', ''target''}" unfolding po by simp
  from d have d': "map_of r ''type'' = Some (JStr ''advises'')" unfolding po by simp
  from f have f': "map_of r ''target'' = Some (JStr ''person-456'')" unfolding po go by simp
  from a b' c' d' f' have over: "\<exists>s' r. apply_event (Some ?s) evt_add_override = Inr s'
          \<and> relationships_of (state s') = [JDict r]
          \<and> fst ` set r = {''type'', ''target''}
          \<and> map_of r ''type'' = Some (JStr ''advises'')
          \<and> map_of r ''target'' = Some (JStr ''person-456'')"
    by (intro exI [of _ s'] exI [of _ r] conjI)
  from bare to po over show ?thesis by (intro conjI) (elim conjE, assumption)+
qed

lemma apply_evt_003:
  "apply_event (Some (snap_of [(''relationships'', JList rs)])) evt_003 =
     Inr (new_snapshot evt_003
       [(''relationships'', JList (rs @
          [JDict [(''type'', JStr ''employs''), (''target'', JStr ''person-456''),
                  (''role'', JStr ''engineer''), (''start_date'', JStr ''2024-03-20'')]]))]
       False)"
  by (simp add: apply_event_def evt_003_def snap_of_def new_snapshot_def deepcopy_def
        dict_get_def dict_get_default_def relationship_record_def)

text \<open>
  Claim C4, as stated, fails: the removal filters out every matching record. When the
  state already holds a record of type \<open>T\<close> and target \<open>X\<close>, adding one more and removing
  \<open>(T, X)\<close> leaves no such record, where there was one before the addition.
\<close>

theorem add_then_remove_duplicate_counterexample:
  "\<not> deleted (snap_of [(''relationships'', JList [employs_456])])
   \<and> map_of (state (snap_of [(''relationships'', JList [employs_456])])) ''relationships''
       = Some (JList [employs_456])
   \<and> relationships_after (snap_of [(''relationships'', JList [employs_456])]) evt_003 evt_remove
       = Some (JList [])"
  by (simp add: relationships_after_def apply_evt_003)
     (simp add: apply_event_def evt_remove_def snap_of_def new_snapshot_def deepcopy_def
        dict_get_def dict_get_default_def rel_matches_def employs_456_def)

text \<open>
  Claim C4, amended. On a live snapshot whose relationships hold no record matching
  \<open>(T, X)\<close>, applying \<^verbatim>\<open>relationship_added\<close> with type \<open>T\<close> and target \<open>X\<close>, whose
  properties have no key \<^verbatim>\<open>type\<close> or \<^verbatim>\<open>target\<close>, and then \<^verbatim>\<open>relationship_removed\<close>
  with the same \<open>T\<close> and \<open>X\<close> succeeds twice and yields a state whose
  \<^verbatim>\<open>relationships\<close> value is the sequence of records before the addition (the empty
  sequence when the field was absent). \<open>T\<close> and \<open>X\<close> are values that hold no NaN, as a
  type name and an entity id are.
\<close>

theorem add_then_remove_roundtrip:
  assumes "\<not> deleted s" and "relationships_ok (state s)"
    and "event_type a = ''relationship_added''" and "properties_ok (payload a)"
    and "event_type r = ''relationship_removed''"
    and "dict_get (payload r) ''relationship_type'' = dict_get (payload a) ''relationship_type''"
    and "dict_get (payload r) ''target_entity'' = dict_get (payload a) ''target_entity''"
    and "''type'' \<notin> fst ` set (properties_of (payload a))"
    and "''target'' \<notin> fst ` set (properties_of (payload a))"
    and "\<not> list_ex (record_matches (payload r)) (relationships_of (state s))"
    and "nan_free (dict_get (payload a) ''relationship_type'')"
    and "nan_free (dict_get (payload a) ''target_entity'')"
  shows "\<exists>s1 s2. apply_event (Some s) a = Inr s1 \<and> apply_event (Some s1) r = Inr s2
           \<and> map_of (state s2) ''relationships'' = Some (JList (relationships_of (state s)))"
proof -
  let ?rec = "dict_update_all
              [(''type'', dict_get (payload a) ''relationship_type''),
               (''target'', dict_get (payload a) ''target_entity'')]
              (properties_of (payload a))"
  let ?st1 = "dict_set ''relationships'' (JList (relationships_of (state s) @ [JDict ?rec]))
              (if map_of (state s) ''relationships'' = None
               then dict_set ''relationships'' (JList []) (state s) else state s)"
  let ?s1 = "new_snapshot a ?st1 False"
  have 1: "apply_event (Some s) a = Inr ?s1"
    by (rule relationship_added_live [OF assms(3) assms(1) assms(2) assms(4)])
  have m: "record_matches (payload r) (JDict ?rec)"
    using assms(6-9) py_eq_refl [OF assms(11)] py_eq_refl [OF assms(12)]
    by (simp add: record_matches_def dict_get_def [of ?rec] dict_get_default_def
          map_of_dict_update_all_other)
  have rels1: "relationships_of (state ?s1) = relationships_of (state s) @ [JDict ?rec]"
    by (simp add: new_snapshot_def relationships_of_dict_set)
  have typed: "list_all is_mapping (relationships_of (state s))"
    by (rule relationships_typed(2) [OF assms(2)])
  have ok1: "relationships_ok (state ?s1)"
    using assms(2) typed
    by (simp add: new_snapshot_def relationships_ok_dict_set)
  have live1: "\<not> deleted ?s1" by (simp add: new_snapshot_def)
  have keep: "filter (\<lambda>x. \<not> record_matches (payload r) x) (relationships_of (state ?s1))
               = relationships_of (state s)"
    using assms(10) m unfolding rels1 by (simp add: list_ex_iff)
  have ex: "list_ex (record_matches (payload r)) (relationships_of (state ?s1))"
    using m unfolding rels1 by (simp add: list_ex_iff)
  from relationship_removed_live [OF assms(5) live1 ok1] ex keep
  have 2: "apply_event (Some ?s1) r =
     Inr (new_snapshot r
            (dict_set ''relationships'' (JList (relationships_of (state s))) (state ?s1)) False)"
    by simp
  have 3: "map_of (state (new_snapshot r
            (dict_set ''relationships'' (JList (relationships_of (state s))) (state ?s1)) False))
             ''relationships'' = Some (JList (relationships_of (state s)))"
    by (simp add: new_snapshot_def map_of_dict_set)
  show ?thesis
  proof (intro exI conjI)
    show "apply_event (Some s) a = Inr ?s1" by (rule 1)
    show "apply_event (Some ?s1) r = Inr (new_snapshot r
            (dict_set ''relationships'' (JList (relationships_of (state s))) (state ?s1)) False)"
      by (rule 2)
    show "map_of (state (new_snapshot r
            (dict_set ''relationships'' (JList (relationships_of (state s))) (state ?s1)) False))
             ''relationships'' = Some (JList (relationships_of (state s)))"
      by (rule 3)
  qed
qed

theorem add_then_remove_roundtrip_witness:
  "\<exists>s1 s2. apply_event (Some (snap_of [(''relationships'', JList [employs_789])])) evt_003 = Inr s1
     \<and> apply_event (Some s1) evt_remove = Inr s2
     \<and> map_of (state s2) ''relationships'' = Some (JList [employs_789])"
proof -
  let ?s = "snap_of [(''relationships'', JList [employs_789])]"
  have rels: "relationships_of (state ?s) = [employs_789]"
    by (simp add: relationships_of_def snap_of_def new_snapshot_def)
  have 1: "\<not> deleted ?s" by (simp add: snap_of_def new_snapshot_def)
  have 2: "relationships_ok (state ?s)"
    by (simp add: relationships_ok_def snap_of_def new_snapshot_def employs_789_def)
  have 3: "event_type evt_003 = ''relationship_added''" by (simp add: evt_003_def)
  have 4: "properties_ok (payload evt_003)" by (simp add: properties_ok_def evt_003_def)
  have 5: "event_type evt_remove = ''relationship_removed''" by (simp add: evt_remove_def)
  have 6: "dict_get (payload evt_remove) ''relationship_type''
           = dict_get (payload evt_003) ''relationship_type''"
    by (simp add: evt_remove_def evt_003_def dict_get_def dict_get_default_def)
  have 7: "dict_get (payload evt_remove) ''target_entity''
           = dict_get (payload evt_003) ''target_entity''"
    by (simp add: evt_remove_def evt_003_def dict_get_def dict_get_default_def)
  have 8: "''type'' \<notin> fst ` set (properties_of (payload evt_003))"
    by (simp add: properties_of_def evt_003_def)
  have 9: "''target'' \<notin> fst ` set (properties_of (payload evt_003))"
    by (simp add: properties_of_def evt_003_def)
  have 10: "\<not> list_ex (record_matches (payload evt_remove)) (relationships_of (state ?s))"
    unfolding rels
    by (simp add: record_matches_def evt_remove_def employs_789_def dict_get_def
          dict_get_default_def)
  have 11: "nan_free (dict_get (payload evt_003) ''relationship_type'')"
    by (simp add: evt_003_def dict_get_def dict_get_default_def)
  have 12: "nan_free (dict_get (payload evt_003) ''target_entity'')"
    by (simp add: evt_003_def dict_get_def dict_get_default_def)
  from add_then_remove_roundtrip [OF 1 2 3 4 5 6 7 8 9 10 11 12]
  show ?thesis unfolding rels .
qed

subsection \<open>Deriving a snapshot\<close>

lemma derive_loop_takeWhile:
  "derive_loop snap es t = fold_apply snap (takeWhile (\<lambda>e. timestamp e \<le> t) es)"
  by (induction es arbitrary: snap) (auto simp: not_less split: sum.splits)

lemma fold_apply_None:
  "fold_apply snap es = Inr None \<longleftrightarrow> snap = None \<and> es = []"
proof (induction es arbitrary: snap)
  case (Cons e es)
  then show ?case by (auto split: sum.splits)
qed simp

lemma takeWhile_sorted_filter:
  "sorted (map f xs) \<Longrightarrow>
   takeWhile (\<lambda>x. f x \<le> (t::'a::linorder)) xs = filter (\<lambda>x. f x \<le> t) xs"
proof (induction xs)
  case (Cons x xs)
  show ?case
  proof (cases "f x \<le> t")
    case True
    with Cons show ?thesis by simp
  next
    case False
    with Cons.prems have "\<forall>y \<in> set xs. \<not> f y \<le> t" by auto
    with False show ?thesis by simp
  qed
qed simp

lemma sorted_timestamps: "sorted (map timestamp (build_timeline events))"
proof -
  have "sorted (map sort_key_of (build_timeline events))"
    by (simp add: build_timeline_def)
  then have "sorted_wrt (\<lambda>a b. sort_key_of a \<le> sort_key_of b) (build_timeline events)"
    by (simp add: sorted_map)
  then have "sorted_wrt (\<lambda>a b. timestamp a \<le> timestamp b) (build_timeline events)"
    by (rule sorted_wrt_mono_rel [rotated]) (auto simp: sort_key_of_def less_eq_prod_def)
  then show ?thesis by (simp add: sorted_map)
qed

text \<open>
  Claim C2. \<^verbatim>\<open>derive_snapshot(E, asOf)\<close> sorts \<open>E\<close> with \<^verbatim>\<open>build_timeline\<close> and folds
  \<^verbatim>\<open>apply_event\<close> from the absent snapshot over the longest prefix of the timeline whose
  timestamps are at most \<open>asOf\<close> as strings; the loop halts at the first later event, and
  since the timeline is sorted this prefix holds exactly the events with a timestamp at most
  \<open>asOf\<close>. A snapshot produced by the fold is returned with \<^verbatim>\<open>as_of\<close> overwritten by
  \<open>asOf\<close>; the result is absent exactly when the prefix is empty; a failure of the
  reducer is the failure of the derivation.
\<close>

theorem derive_snapshot_prefix_fold:
  "derive_snapshot events t =
     (case fold_apply None (takeWhile (\<lambda>e. timestamp e \<le> t) (build_timeline events)) of
        Inl err \<Rightarrow> Inl err
      | Inr None \<Rightarrow> Inr None
      | Inr (Some s) \<Rightarrow> Inr (Some (s\<lparr>as_of := t\<rparr>)))
   \<and> takeWhile (\<lambda>e. timestamp e \<le> t) (build_timeline events)
       = filter (\<lambda>e. timestamp e \<le> t) (build_timeline events)
   \<and> (derive_snapshot events t = Inr None
        \<longleftrightarrow> takeWhile (\<lambda>e. timestamp e \<le> t) (build_timeline events) = [])"
proof (intro conjI)
  show 1: "derive_snapshot events t =
     (case fold_apply None (takeWhile (\<lambda>e. timestamp e \<le> t) (build_timeline events)) of
        Inl err \<Rightarrow> Inl err
      | Inr None \<Rightarrow> Inr None
      | Inr (Some s) \<Rightarrow> Inr (Some (s\<lparr>as_of := t\<rparr>)))"
    by (simp add: derive_snapshot_def derive_loop_takeWhile)
  show "takeWhile (\<lambda>e. timestamp e \<le> t) (build_timeline events)
       = filter (\<lambda>e. timestamp e \<le> t) (build_timeline events)"
    by (rule takeWhile_sorted_filter [OF sorted_timestamps])
  have "derive_snapshot events t = Inr None \<longleftrightarrow>
        fold_apply None (takeWhile (\<lambda>e. timestamp e \<le> t) (build_timeline events)) = Inr None"
    unfolding 1 by (auto split: sum.splits option.splits)
  then show "derive_snapshot events t = Inr None
        \<longleftrightarrow> takeWhile (\<lambda>e. timestamp e \<le> t) (build_timeline events) = []"
    by (simp add: fold_apply_None)
qed

lemma build_timeline_rev_EVENTS: "build_timeline (rev EVENTS) = EVENTS"
  by (simp add: build_timeline_def EVENTS_def sort_key_of_def less_eq_prod_def
        evt_001_def evt_002_def evt_003_def evt_004_def evt_005_def)

theorem derive_snapshot_prefix_fold_witness:
  "derive_snapshot (rev EVENTS) ''2024-04-01T00:00:00Z'' =
     Inr (Some \<lparr>entity_id = ''company-123'', as_of = ''2024-04-01T00:00:00Z'',
       state = [(''name'', JStr ''Acme Corp''), (''status'', JStr ''expanding''),
                (''founded'', JStr ''2024-01-01''), (''employee_count'', JNum 10),
                (''relationships'',
                 JList [JDict [(''type'', JStr ''employs''), (''target'', JStr ''person-456''),
                               (''role'', JStr ''engineer''),
                               (''start_date'', JStr ''2024-03-20'')]])],
       last_event_id = ''evt-003'', deleted = False\<rparr>)
   \<and> derive_snapshot (rev EVENTS) ''2023-12-31T00:00:00Z'' = Inr None"
proof -
  have p1: "takeWhile (\<lambda>e. timestamp e \<le> ''2024-04-01T00:00:00Z'') EVENTS
            = [evt_001, evt_002, evt_003]"
    by (simp add: EVENTS_def evt_001_def evt_002_def evt_003_def evt_004_def evt_005_def)
  have p2: "takeWhile (\<lambda>e. timestamp e \<le> ''2023-12-31T00:00:00Z'') EVENTS = []"
    by (simp add: EVENTS_def evt_001_def evt_002_def evt_003_def evt_004_def evt_005_def)
  have a1: "apply_event None evt_001 = Inr (new_snapshot evt_001 (payload evt_001) False)"
    by (simp add: apply_event_created evt_001_def)
  have a2: "apply_event (Some (new_snapshot evt_001 (payload evt_001) False)) evt_002 =
     Inr (new_snapshot evt_002
       [(''name'', JStr ''Acme Corp''), (''status'', JStr ''expanding''),
        (''founded'', JStr ''2024-01-01''), (''employee_count'', JNum 10)] False)"
    by (simp add: apply_event_updated evt_002_def evt_001_def new_snapshot_def)
  have a3: "apply_event (Some (new_snapshot evt_002
       [(''name'', JStr ''Acme Corp''), (''status'', JStr ''expanding''),
        (''founded'', JStr ''2024-01-01''), (''employee_count'', JNum 10)] False)) evt_003 =
     Inr (new_snapshot evt_003
       [(''name'', JStr ''Acme Corp''), (''status'', JStr ''expanding''),
        (''founded'', JStr ''2024-01-01''), (''employee_count'', JNum 10),
        (''relationships'',
          JList [JDict [(''type'', JStr ''employs''), (''target'', JStr ''person-456''),
                        (''role'', JStr ''engineer''),
                        (''start_date'', JStr ''2024-03-20'')]])] False)"
    by (simp add: apply_event_relationship_added evt_003_def new_snapshot_def
          relationship_record_def dict_get_def dict_get_default_def)
  have f: "fold_apply None [evt_001, evt_002, evt_003] =
     Inr (Some (new_snapshot evt_003
       [(''name'', JStr ''Acme Corp''), (''status'', JStr ''expanding''),
        (''founded'', JStr ''2024-01-01''), (''employee_count'', JNum 10),
        (''relationships'',
          JList [JDict [(''type'', JStr ''employs''), (''target'', JStr ''person-456''),
                        (''role'', JStr ''engineer''),
                        (''start_date'', JStr ''2024-03-20'')]])] False))"
    by (simp add: a1 a2 a3)
  from derive_snapshot_prefix_fold [of "rev EVENTS" "''2024-04-01T00:00:00Z''"]
  have "derive_snapshot (rev EVENTS) ''2024-04-01T00:00:00Z'' =
     (case fold_apply None [evt_001, evt_002, evt_003] of
        Inl err \<Rightarrow> Inl err
      | Inr None \<Rightarrow> Inr None
      | Inr (Some s) \<Rightarrow> Inr (Some (s\<lparr>as_of := ''2024-04-01T00:00:00Z''\<rparr>)))"
    unfolding build_timeline_rev_EVENTS p1 by blast
  then have 1: "derive_snapshot (rev EVENTS) ''2024-04-01T00:00:00Z'' =
     Inr (Some \<lparr>entity_id = ''company-123'', as_of = ''2024-04-01T00:00:00Z'',
       state = [(''name'', JStr ''Acme Corp''), (''status'', JStr ''expanding''),
                (''founded'', JStr ''2024-01-01''), (''employee_count'', JNum 10),
                (''relationships'',
                 JList [JDict [(''type'', JStr ''employs''), (''target'', JStr ''person-456''),
                               (''role'', JStr ''engineer''),
                               (''start_date'', JStr ''2024-03-20'')]])],
       last_event_id = ''evt-003'', deleted = False\<rparr>)"
    unfolding f by (simp add: new_snapshot_def evt_003_def)
  from derive_snapshot_prefix_fold [of "rev EVENTS" "''2023-12-31T00:00:00Z''"]
  have 2: "derive_snapshot (rev EVENTS) ''2023-12-31T00:00:00Z'' = Inr None"
    unfolding build_timeline_rev_EVENTS p2 by blast
  from 1 2 show ?thesis by (rule conjI)
qed

subsection \<open>Validation\<close>

lemma validate_loop_no_ValueError:
  "validate_loop snap es errs \<noteq> Inl (ValueError m)"
proof (induction es arbitrary: snap errs)
  case (Cons e es)
  show ?case
  proof (cases "apply_event snap e")
    case (Inr s)
    with Cons show ?thesis by simp
  next
    case (Inl err)
    with Cons show ?thesis by (cases err) simp_all
  qed
qed simp

lemma validate_loop_replay:
  "snapshot_ok snap \<Longrightarrow> \<forall>e \<in> set es. event_ok e \<Longrightarrow>
   validate_loop snap es errs = Inr (errs @ concat (map error_entries (replay snap es)))"
proof (induction es arbitrary: snap errs)
  case (Cons e es)
  from Cons.prems have ok: "event_ok e" and rest: "\<forall>e \<in> set es. event_ok e" by simp_all
  from apply_event_typed [OF Cons.prems(1) ok] show ?case
  proof (elim disjE exE conjE)
    fix s assume a: "apply_event snap e = Inr s" and r: "relationships_ok (state s)"
    then have "snapshot_ok (Some s)" by (simp add: snapshot_ok_def)
    from Cons.IH [OF this rest] a show ?thesis by simp
  next
    fix m assume a: "apply_event snap e = Inl (ValueError m)"
    from Cons.IH [OF Cons.prems(1) rest] a show ?thesis by simp
  qed
qed simp

lemma no_entries_iff_fold:
  "snapshot_ok snap \<Longrightarrow> \<forall>e \<in> set es. event_ok e \<Longrightarrow>
   concat (map error_entries (replay snap es)) = [] \<longleftrightarrow> (\<exists>s. fold_apply snap es = Inr s)"
proof (induction es arbitrary: snap)
  case (Cons e es)
  from Cons.prems have ok: "event_ok e" and rest: "\<forall>e \<in> set es. event_ok e" by simp_all
  from apply_event_typed [OF Cons.prems(1) ok] show ?case
  proof (elim disjE exE conjE)
    fix s assume a: "apply_event snap e = Inr s" and r: "relationships_ok (state s)"
    then have "snapshot_ok (Some s)" by (simp add: snapshot_ok_def)
    from Cons.IH [OF this rest] a show ?thesis by simp
  next
    fix m assume a: "apply_event snap e = Inl (ValueError m)"
    then show ?thesis by simp
  qed
qed simp

text \<open>
  Claim C3, as stated, fails: \<^verbatim>\<open>except ValueError\<close> catches the failures that the
  reducer raises itself, and nothing else. A \<^verbatim>\<open>created\<close> event whose payload stores a
  string under \<^verbatim>\<open>relationships\<close>, followed by a \<^verbatim>\<open>relationship_added\<close> event, makes
  the reducer raise \<^verbatim>\<open>AttributeError\<close>; it leaves \<^verbatim>\<open>validate_timeline\<close>, which returns
  no list, and the entry collected before (for \<open>evt_update_early\<close>, which comes first
  in the timeline and fails) is lost.
\<close>

theorem validate_timeline_raises_counterexample:
  "build_timeline [evt_003, evt_created_untyped, evt_update_early]
     = [evt_update_early, evt_created_untyped, evt_003]
   \<and> validate_timeline
         [evt_003, evt_created_untyped, evt_update_early]
       = Inl AttributeError"
proof -
  have bt: "build_timeline
      [evt_003, evt_created_untyped, evt_update_early]
     = [evt_update_early, evt_created_untyped, evt_003]"
    by (simp add: build_timeline_def sort_key_of_def less_eq_prod_def evt_003_def
          evt_created_untyped_def evt_update_early_def)
  have a1: "apply_event None evt_update_early
            = Inl (ValueError (Msg_does_not_exist ''update'' ''company-123''))"
    by (simp add: apply_event_updated evt_update_early_def)
  have a2: "apply_event None evt_created_untyped
            = Inr (new_snapshot evt_created_untyped (payload evt_created_untyped) False)"
    by (simp add: apply_event_created evt_created_untyped_def)
  have a3: "apply_event
              (Some (new_snapshot evt_created_untyped (payload evt_created_untyped) False))
              evt_003 = Inl AttributeError"
    by (simp add: apply_event_relationship_added evt_003_def evt_created_untyped_def
          new_snapshot_def dict_get_def dict_get_default_def)
  have "validate_timeline
         [evt_003, evt_created_untyped, evt_update_early]
       = Inl AttributeError"
    unfolding validate_timeline_def bt by (simp add: a1 a2 a3)
  with bt show ?thesis by (rule conjI)
qed

text \<open>
  Claim C3, amended. \<^verbatim>\<open>validate_timeline\<close> never propagates a failure that the reducer
  raises as \<^verbatim>\<open>ValueError\<close>. For every event list in which the payload of every
  \<^verbatim>\<open>created\<close> or \<^verbatim>\<open>updated\<close> event stores under \<^verbatim>\<open>relationships\<close>, if anything, a
  sequence of records, and the payload of every \<^verbatim>\<open>relationship_added\<close> event stores under
  \<^verbatim>\<open>properties\<close>, if anything, a mapping, it returns the collected error list: replaying
  the timeline from the absent snapshot, every event whose application fails contributes
  exactly one entry, which carries the id of that event, and the replay continues from the
  last successfully produced snapshot. The list is empty exactly when every event of the
  timeline applies successfully in order.
\<close>

theorem validate_timeline_collects:
  "(\<forall>m. validate_timeline events \<noteq> Inl (ValueError m))
   \<and> ((\<forall>e \<in> set events. event_ok e) \<longrightarrow>
        validate_timeline events =
          Inr (concat (map error_entries (replay None (build_timeline events))))
        \<and> (validate_timeline events = Inr []
             \<longleftrightarrow> (\<exists>s. fold_apply None (build_timeline events) = Inr s)))"
proof (intro conjI allI impI)
  show "validate_timeline events \<noteq> Inl (ValueError m)" for m
    by (simp add: validate_timeline_def validate_loop_no_ValueError)
  assume "\<forall>e \<in> set events. event_ok e"
  then have ok: "\<forall>e \<in> set (build_timeline events). event_ok e"
    by (simp add: build_timeline_def)
  have s: "snapshot_ok None" by (simp add: snapshot_ok_def)
  show v: "validate_timeline events =
          Inr (concat (map error_entries (replay None (build_timeline events))))"
    using validate_loop_replay [OF s ok, of "[]"] by (simp add: validate_timeline_def)
  show "validate_timeline events = Inr []
             \<longleftrightarrow> (\<exists>s. fold_apply None (build_timeline events) = Inr s)"
    unfolding v using no_entries_iff_fold [OF s ok] by simp
qed

theorem validate_timeline_collects_witness:
  "list_all event_ok [evt_005, evt_002]
   \<and> validate_timeline [evt_005, evt_002] =
       Inr [Event_error ''evt-002'' (Msg_does_not_exist ''update'' ''company-123''),
            Event_error ''evt-005'' (Msg_does_not_exist ''delete'' ''company-123'')]"
proof -
  have ok: "list_all event_ok [evt_005, evt_002]"
    by (simp add: event_ok_def relationships_ok_def properties_ok_def evt_005_def evt_002_def)
  have bt: "build_timeline [evt_005, evt_002] = [evt_002, evt_005]"
    by (simp add: build_timeline_def sort_key_of_def less_eq_prod_def evt_005_def evt_002_def)
  have a2: "apply_event None evt_002
            = Inl (ValueError (Msg_does_not_exist ''update'' ''company-123''))"
    by (simp add: apply_event_updated evt_002_def)
  have a5: "apply_event None evt_005
            = Inl (ValueError (Msg_does_not_exist ''delete'' ''company-123''))"
    by (simp add: apply_event_deleted evt_005_def)
  have i2: "event_id evt_002 = ''evt-002''" and i5: "event_id evt_005 = ''evt-005''"
    by (simp_all add: evt_002_def evt_005_def)
  from ok have "\<forall>e \<in> set [evt_005, evt_002]. event_ok e" by (simp add: list_all_iff)
  with validate_timeline_collects [of "[evt_005, evt_002]"]
  have "validate_timeline [evt_005, evt_002] =
          Inr (concat (map error_entries (replay None (build_timeline [evt_005, evt_002]))))"
    by blast
  then have "validate_timeline [evt_005, evt_002] =
       Inr [Event_error ''evt-002'' (Msg_does_not_exist ''update'' ''company-123''),
            Event_error ''evt-005'' (Msg_does_not_exist ''delete'' ''company-123'')]"
    unfolding bt by (simp add: a2 a5 i2 i5)
  with ok show ?thesis by (rule conjI)
qed

lemma check_required_eq:
  "check_required ev fs errs =
     errs @ map Missing_required_field (filter (\<lambda>f. map_of ev f = None) fs)"
  by (induction fs arbitrary: errs) simp_all

lemma replace_Z_empty: "replace_Z '''' = ''''"
  by (simp add: replace_Z_def)

text \<open>
  Claim C9. \<^verbatim>\<open>validate_event\<close> never raises: it returns a list of errors for every
  event mapping. When the mapping lacks \<^verbatim>\<open>timestamp\<close>, the list has at least two entries,
  among them the missing-required-field error for \<^verbatim>\<open>timestamp\<close> and the
  invalid-timestamp-format error for the empty string, which the parser rejects.
\<close>

theorem validate_event_missing_timestamp:
  "(\<exists>errs. validate_event fromisoformat ev = Inr errs)
   \<and> (map_of ev ''timestamp'' = None \<and> \<not> fromisoformat '''' \<longrightarrow>
        (\<exists>errs. validate_event fromisoformat ev = Inr errs
           \<and> Missing_required_field ''timestamp'' \<in> set errs
           \<and> Invalid_timestamp_format (JStr '''') \<in> set errs
           \<and> 2 \<le> length errs))"
proof (intro conjI impI)
  show "\<exists>errs. validate_event fromisoformat ev = Inr errs"
    by (cases "dict_get_default ev ''timestamp'' (JStr '''')")
       (simp_all add: validate_event_def parse_timestamp_def Let_def)
  assume a: "map_of ev ''timestamp'' = None \<and> \<not> fromisoformat ''''"
  then have ts: "dict_get_default ev ''timestamp'' (JStr '''') = JStr ''''"
    by (simp add: dict_get_default_def)
  let ?errs = "check_required ev required [] @
       (if \<not> list_ex (\<lambda>t. py_eq (dict_get ev ''event_type'') (JStr t)) valid_types
        then [Invalid_event_type (dict_get ev ''event_type'')] else []) @
       [Invalid_timestamp_format (JStr '''')]"
  have v: "validate_event fromisoformat ev = Inr ?errs"
    using a by (simp add: validate_event_def parse_timestamp_def Let_def ts replace_Z_empty)
  have m: "Missing_required_field ''timestamp'' \<in> set (check_required ev required [])"
    using a by (simp add: check_required_eq required_def)
  then have "check_required ev required [] \<noteq> []" by auto
  then have "1 \<le> length (check_required ev required [])"
    by (cases "check_required ev required []") simp_all
  then have l: "2 \<le> length ?errs" by simp
  from v m l show "\<exists>errs. validate_event fromisoformat ev = Inr errs
           \<and> Missing_required_field ''timestamp'' \<in> set errs
           \<and> Invalid_timestamp_format (JStr '''') \<in> set errs
           \<and> 2 \<le> length errs"
    by (intro exI [of _ ?errs]) simp
qed

theorem validate_event_missing_timestamp_witness:
  "map_of evt_no_timestamp ''timestamp'' = None
   \<and> validate_event (\<lambda>s. 10 \<le> length s) evt_no_timestamp =
       Inr [Missing_required_field ''timestamp'', Invalid_timestamp_format (JStr '''')]"
proof -
  have 1: "map_of evt_no_timestamp ''timestamp'' = None"
    by (simp add: evt_no_timestamp_def)
  have 2: "validate_event (\<lambda>s. 10 \<le> length s) evt_no_timestamp =
       Inr [Missing_required_field ''timestamp'', Invalid_timestamp_format (JStr '''')]"
    by (simp add: validate_event_def evt_no_timestamp_def required_def valid_types_def
          dict_get_def dict_get_default_def parse_timestamp_def replace_Z_def Let_def)
  from validate_event_missing_timestamp [of "\<lambda>s. 10 \<le> length s" evt_no_timestamp] 1
  have "\<exists>errs. validate_event (\<lambda>s. 10 \<le> length s) evt_no_timestamp = Inr errs
           \<and> Missing_required_field ''timestamp'' \<in> set errs
           \<and> Invalid_timestamp_format (JStr '''') \<in> set errs
           \<and> 2 \<le> length errs"
    by simp
  with 1 2 show ?thesis by simp
qed

end
